theory Spec2Isabelle
  imports Complex_Main "HOL-Library.Word"
begin

section \<open>Data model of \<^verbatim>\<open>SceneManager.cpp\<close>\<close>

text \<open>
  A \<^verbatim>\<open>float\<close> that the source writes as a literal is the decimal it writes, a \<^typ>\<open>real\<close>;
  the model does no arithmetic on it. What \<^verbatim>\<open>SetTransformations\<close> computes in binary32
  inside GLM is not evaluated: a \<^verbatim>\<open>glm::mat4\<close> is the GLM expression that yields it,
  built from the calls \<^verbatim>\<open>glm::translate\<close>, \<^verbatim>\<open>glm::rotate\<close>, \<^verbatim>\<open>glm::scale\<close>,
  \<^verbatim>\<open>glm::radians\<close> and the matrix \<^verbatim>\<open>operator*\<close>.
\<close>

datatype vec2 = vec2 real real
datatype vec3 = vec3 real real real
datatype vec4 = vec4 real real real real

datatype angle = radians real

datatype mat4 =
    glm_translate vec3
  | glm_rotate angle vec3
  | glm_scale vec3
  | mat4_times mat4 mat4

datatype mesh =
    BoxMesh | PlaneMesh | CylinderMesh | ConeMesh | PrismMesh | Pyramid4Mesh
  | SphereMesh | TaperedCylinderMesh | TorusMesh | HalfTorusMesh

datatype gl_enum =
    GL_TEXTURE_WRAP_S | GL_TEXTURE_WRAP_T | GL_TEXTURE_MIN_FILTER | GL_TEXTURE_MAG_FILTER
  | GL_REPEAT | GL_LINEAR | GL_RGB8 | GL_RGBA8 | GL_RGB | GL_RGBA

text \<open>
  The calls the scene manager makes into its collaborators (the shader manager, OpenGL,
  the image decoder and the mesh object), in the order it makes them. Console output is
  left out.
\<close>

datatype op =
    setMat4Value string mat4
  | setIntValue string int
  | setBoolValue string bool
  | setFloatValue string real
  | setVec2Value string vec2
  | setVec3Value string vec3
  | setVec4Value string vec4
  | setSampler2DValue string int
  | glGenTextures "32 word"
  | glDeleteTextures "32 word"
  | glBindTexture "32 word"
  | glActiveTexture int
  | glTexParameteri gl_enum gl_enum
  | glTexImage2D gl_enum int int gl_enum
  | glGenerateMipmap
  | stbi_set_flip_vertically_on_load bool
  | stbi_image_free
  | LoadMesh mesh
  | DrawMesh mesh

text \<open>
  Undefined behaviour of the C++ is an error value of the model: an index outside the
  16-element array \<^verbatim>\<open>m_textureIDs\<close>, a call through a null \<^verbatim>\<open>m_pShaderManager\<close>, and a
  read of a local that was never assigned.
\<close>

datatype error = ArrayIndexOutOfBounds | NullPointerDereference | UninitializedRead

datatype pointer = NULL | Ptr nat

text \<open>
  \<^verbatim>\<open>TEXTURE_INFO\<close> and \<^verbatim>\<open>OBJECT_MATERIAL\<close> are declared in \<^verbatim>\<open>SceneManager.h\<close>; their fields
  are the ones \<^verbatim>\<open>SceneManager.cpp\<close> reads and writes. \<^verbatim>\<open>ID\<close> is a \<^verbatim>\<open>GLuint\<close>: its address is
  passed to \<^verbatim>\<open>glGenTextures\<close>. Both structs call their key \<^verbatim>\<open>tag\<close>; the material's is
  \<open>mtag\<close> here.
\<close>

record TEXTURE_INFO =
  tag :: string
  ID :: "32 word"

record OBJECT_MATERIAL =
  ambientColor :: vec3
  ambientStrength :: real
  diffuseColor :: vec3
  specularColor :: vec3
  shininess :: real
  mtag :: string

record SceneManager =
  m_pShaderManager :: pointer
  m_textureIDs :: "TEXTURE_INFO list"
  m_loadedTextures :: int
  m_objectMaterials :: "OBJECT_MATERIAL list"

text \<open>What \<^verbatim>\<open>stbi_load\<close> hands back for a decodable file.\<close>

record image =
  width :: int
  height :: int
  colorChannels :: int

definition g_ModelName :: string where "g_ModelName = ''model''"
definition g_ColorValueName :: string where "g_ColorValueName = ''objectColor''"
definition g_TextureValueName :: string where "g_TextureValueName = ''objectTexture''"
definition g_UseTextureName :: string where "g_UseTextureName = ''bUseTexture''"
definition g_UseLightingName :: string where "g_UseLightingName = ''bUseLighting''"

text \<open>The constructor: sixteen slots tagged \<^verbatim>\<open>"/0"\<close> with ID \<^verbatim>\<open>-1\<close>, nothing loaded.\<close>

definition SceneManager_ctor :: "pointer \<Rightarrow> SceneManager" where
  "SceneManager_ctor pShaderManager =
     \<lparr> m_pShaderManager = pShaderManager,
       m_textureIDs = replicate 16 \<lparr> tag = ''/0'', ID = - 1 \<rparr>,
       m_loadedTextures = 0,
       m_objectMaterials = [] \<rparr>"

section \<open>Texture registry\<close>

text \<open>
  \<^verbatim>\<open>m_textureIDs[i]\<close> for an \<^verbatim>\<open>int\<close> index: defined inside the array only.
\<close>

definition in_bounds :: "SceneManager \<Rightarrow> int \<Rightarrow> bool" where
  "in_bounds s i = (0 \<le> i \<and> i < int (length (m_textureIDs s)))"

text \<open>
  \<^verbatim>\<open>CreateGLTexture\<close>. The decoder is the parameter \<open>stbi_load\<close> (\<open>None\<close> for a file
  it cannot read) and \<open>fresh\<close> is the name \<^verbatim>\<open>glGenTextures\<close> writes into \<^verbatim>\<open>textureID\<close>.
  The result is the returned \<^verbatim>\<open>bool\<close>, the calls made and the object afterwards.
\<close>

definition CreateGLTexture ::
  "(string \<Rightarrow> image option) \<Rightarrow> 32 word \<Rightarrow> string \<Rightarrow> string \<Rightarrow> SceneManager
     \<Rightarrow> error + (bool \<times> op list \<times> SceneManager)" where
  "CreateGLTexture stbi_load fresh filename tg s =
     (case stbi_load filename of
        Some img \<Rightarrow>
          (let textureID = fresh;
               setup = [stbi_set_flip_vertically_on_load True,
                        glGenTextures textureID, glBindTexture textureID,
                        glTexParameteri GL_TEXTURE_WRAP_S GL_REPEAT,
                        glTexParameteri GL_TEXTURE_WRAP_T GL_REPEAT,
                        glTexParameteri GL_TEXTURE_MIN_FILTER GL_LINEAR,
                        glTexParameteri GL_TEXTURE_MAG_FILTER GL_LINEAR];
               register = (\<lambda>upload.
                 if in_bounds s (m_loadedTextures s) then
                   (let i = nat (m_loadedTextures s);
                        e = (m_textureIDs s ! i)\<lparr> ID := textureID, tag := tg \<rparr>
                    in Inr (True,
                            setup @ [upload, glGenerateMipmap, stbi_image_free, glBindTexture 0],
                            s\<lparr> m_textureIDs := (m_textureIDs s)[i := e],
                               m_loadedTextures := m_loadedTextures s + 1 \<rparr>))
                 else Inl ArrayIndexOutOfBounds)
           in if colorChannels img = 3 then
                register (glTexImage2D GL_RGB8 (width img) (height img) GL_RGB)
              else if colorChannels img = 4 then
                register (glTexImage2D GL_RGBA8 (width img) (height img) GL_RGBA)
              else Inr (False, setup, s))
      | None \<Rightarrow> Inr (False, [stbi_set_flip_vertically_on_load True], s))"

text \<open>
  The searches of \<^verbatim>\<open>FindTextureID\<close> and \<^verbatim>\<open>FindTextureSlot\<close>, on their three
  locals: the result so far, \<^verbatim>\<open>index\<close> and \<^verbatim>\<open>bFound\<close>.
\<close>

function FindTextureID_loop ::
  "string \<Rightarrow> SceneManager \<Rightarrow> int \<Rightarrow> int \<Rightarrow> bool \<Rightarrow> error + int" where
  "FindTextureID_loop tg s textureID index bFound =
     (if index < m_loadedTextures s \<and> bFound = False then
        (if \<not> in_bounds s index then Inl ArrayIndexOutOfBounds
         else if tag (m_textureIDs s ! nat index) = tg then
           FindTextureID_loop tg s (sint (ID (m_textureIDs s ! nat index))) index True
         else FindTextureID_loop tg s textureID (index + 1) bFound)
      else Inr textureID)"
  by pat_completeness auto
termination
  by (relation "measure (\<lambda>(tg, s, textureID, index, bFound).
        2 * nat (m_loadedTextures s - index) + (if bFound then 0 else 1))") auto

declare FindTextureID_loop.simps [simp del]

definition FindTextureID :: "string \<Rightarrow> SceneManager \<Rightarrow> error + int" where
  "FindTextureID tg s = FindTextureID_loop tg s (- 1) 0 False"

function FindTextureSlot_loop ::
  "string \<Rightarrow> SceneManager \<Rightarrow> int \<Rightarrow> int \<Rightarrow> bool \<Rightarrow> error + int" where
  "FindTextureSlot_loop tg s textureSlot index bFound =
     (if index < m_loadedTextures s \<and> bFound = False then
        (if \<not> in_bounds s index then Inl ArrayIndexOutOfBounds
         else if tag (m_textureIDs s ! nat index) = tg then
           FindTextureSlot_loop tg s index index True
         else FindTextureSlot_loop tg s textureSlot (index + 1) bFound)
      else Inr textureSlot)"
  by pat_completeness auto
termination
  by (relation "measure (\<lambda>(tg, s, textureSlot, index, bFound).
        2 * nat (m_loadedTextures s - index) + (if bFound then 0 else 1))") auto

declare FindTextureSlot_loop.simps [simp del]

definition FindTextureSlot :: "string \<Rightarrow> SceneManager \<Rightarrow> error + int" where
  "FindTextureSlot tg s = FindTextureSlot_loop tg s (- 1) 0 False"

text \<open>
  \<^verbatim>\<open>BindGLTextures\<close> and \<^verbatim>\<open>DestroyGLTextures\<close>: one pass over the loaded slots each.
  \<^verbatim>\<open>glActiveTexture(GL_TEXTURE0 + i)\<close> is recorded by its unit \<open>i\<close>. In the teardown,
  \<open>fresh i\<close> is the name \<^verbatim>\<open>glGenTextures\<close> writes into \<^verbatim>\<open>m_textureIDs[i].ID\<close>.
\<close>

function BindGLTextures_loop :: "int \<Rightarrow> SceneManager \<Rightarrow> error + (op list \<times> SceneManager)" where
  "BindGLTextures_loop i s =
     (if i < m_loadedTextures s then
        (if \<not> in_bounds s i then Inl ArrayIndexOutOfBounds
         else (case BindGLTextures_loop (i + 1) s of
                 Inl e \<Rightarrow> Inl e
               | Inr (ops, s') \<Rightarrow>
                   Inr (glActiveTexture i # glBindTexture (ID (m_textureIDs s ! nat i)) # ops, s')))
      else Inr ([], s))"
  by pat_completeness auto
termination
  by (relation "measure (\<lambda>(i, s). nat (m_loadedTextures s - i))") auto

declare BindGLTextures_loop.simps [simp del]

definition BindGLTextures :: "SceneManager \<Rightarrow> error + (op list \<times> SceneManager)" where
  "BindGLTextures s = BindGLTextures_loop 0 s"

function DestroyGLTextures_loop ::
  "(int \<Rightarrow> 32 word) \<Rightarrow> int \<Rightarrow> SceneManager \<Rightarrow> error + (op list \<times> SceneManager)" where
  "DestroyGLTextures_loop fresh i s =
     (if i < m_loadedTextures s then
        (if \<not> in_bounds s i then Inl ArrayIndexOutOfBounds
         else (case DestroyGLTextures_loop fresh (i + 1)
                      (s\<lparr> m_textureIDs :=
                           (m_textureIDs s)[nat i := (m_textureIDs s ! nat i)\<lparr> ID := fresh i \<rparr>] \<rparr>) of
                 Inl e \<Rightarrow> Inl e
               | Inr (ops, s') \<Rightarrow> Inr (glGenTextures (fresh i) # ops, s')))
      else Inr ([], s))"
  by pat_completeness auto
termination
  by (relation "measure (\<lambda>(fresh, i, s). nat (m_loadedTextures s - i))") auto

declare DestroyGLTextures_loop.simps [simp del]

definition DestroyGLTextures ::
  "(int \<Rightarrow> 32 word) \<Rightarrow> SceneManager \<Rightarrow> error + (op list \<times> SceneManager)" where
  "DestroyGLTextures fresh s = DestroyGLTextures_loop fresh 0 s"

section \<open>Material registry\<close>

text \<open>
  \<^verbatim>\<open>FindMaterial\<close> writes through its reference parameter \<^verbatim>\<open>material\<close>. The caller's
  object is \<open>None\<close> while its numeric fields have never been assigned (the fresh local of
  \<^verbatim>\<open>SetShaderMaterial\<close>, whose \<^verbatim>\<open>std::string\<close> alone is initialised, to the empty string)
  and \<open>Some\<close> otherwise. The five assignments of the loop body leave the tag of the
  caller's object as it was.
\<close>

definition assign_fields :: "OBJECT_MATERIAL option \<Rightarrow> OBJECT_MATERIAL \<Rightarrow> OBJECT_MATERIAL" where
  "assign_fields material src =
     \<lparr> ambientColor = ambientColor src,
       ambientStrength = ambientStrength src,
       diffuseColor = diffuseColor src,
       specularColor = specularColor src,
       shininess = shininess src,
       mtag = (case material of None \<Rightarrow> [] | Some m \<Rightarrow> mtag m) \<rparr>"

text \<open>
  The loop compares the \<^verbatim>\<open>int index\<close> with the unsigned \<^verbatim>\<open>size()\<close>; \<open>index\<close> starts at 0
  and only grows, and a negative one would compare as a huge unsigned value.
\<close>

function FindMaterial_loop ::
  "string \<Rightarrow> SceneManager \<Rightarrow> OBJECT_MATERIAL option \<Rightarrow> int \<Rightarrow> bool \<Rightarrow> OBJECT_MATERIAL option" where
  "FindMaterial_loop tg s material index bFound =
     (if (0 \<le> index \<and> index < int (length (m_objectMaterials s))) \<and> bFound = False then
        (if mtag (m_objectMaterials s ! nat index) = tg then
           FindMaterial_loop tg s
             (Some (assign_fields material (m_objectMaterials s ! nat index))) index True
         else FindMaterial_loop tg s material (index + 1) bFound)
      else material)"
  by pat_completeness auto
termination
  by (relation "measure (\<lambda>(tg, s, material, index, bFound).
        2 * nat (int (length (m_objectMaterials s)) - index) + (if bFound then 0 else 1))") auto

declare FindMaterial_loop.simps [simp del]

definition FindMaterial ::
  "string \<Rightarrow> OBJECT_MATERIAL option \<Rightarrow> SceneManager \<Rightarrow> bool \<times> OBJECT_MATERIAL option" where
  "FindMaterial tg material s =
     (if length (m_objectMaterials s) = 0 then (False, material)
      else (True, FindMaterial_loop tg s material 0 False))"

section \<open>Shader parameters\<close>

text \<open>
  A statement of a \<^verbatim>\<open>void\<close> method: it may fail, and otherwise yields the calls it made
  and the object afterwards. \<open>sequence\<close> runs statements in order.
\<close>

type_synonym step = "SceneManager \<Rightarrow> error + (op list \<times> SceneManager)"

fun sequence :: "step list \<Rightarrow> step" where
  "sequence [] s = Inr ([], s)"
| "sequence (f # fs) s =
     (case f s of
        Inl e \<Rightarrow> Inl e
      | Inr (ops, s') \<Rightarrow>
          (case sequence fs s' of
             Inl e \<Rightarrow> Inl e
           | Inr (ops', s'') \<Rightarrow> Inr (ops @ ops', s'')))"

text \<open>
  The local \<^verbatim>\<open>modelView\<close> of \<^verbatim>\<open>SetTransformations\<close>: the five GLM matrices and their
  product, in the order the source multiplies them.
\<close>

definition modelView :: "vec3 \<Rightarrow> real \<Rightarrow> real \<Rightarrow> real \<Rightarrow> vec3 \<Rightarrow> mat4" where
  "modelView scaleXYZ XrotationDegrees YrotationDegrees ZrotationDegrees positionXYZ =
     (let scale = glm_scale scaleXYZ;
          rotationX = glm_rotate (radians XrotationDegrees) (vec3 1 0 0);
          rotationY = glm_rotate (radians YrotationDegrees) (vec3 0 1 0);
          rotationZ = glm_rotate (radians ZrotationDegrees) (vec3 0 0 1);
          translation = glm_translate positionXYZ
      in mat4_times (mat4_times (mat4_times (mat4_times translation rotationX) rotationY) rotationZ)
           scale)"

definition SetTransformations :: "vec3 \<Rightarrow> real \<Rightarrow> real \<Rightarrow> real \<Rightarrow> vec3 \<Rightarrow> step" where
  "SetTransformations scaleXYZ XrotationDegrees YrotationDegrees ZrotationDegrees positionXYZ s =
     (if m_pShaderManager s \<noteq> NULL then
        Inr ([setMat4Value g_ModelName
                (modelView scaleXYZ XrotationDegrees YrotationDegrees ZrotationDegrees positionXYZ)], s)
      else Inr ([], s))"

definition SetShaderColor :: "real \<Rightarrow> real \<Rightarrow> real \<Rightarrow> real \<Rightarrow> step" where
  "SetShaderColor redColorValue greenColorValue blueColorValue alphaValue s =
     (let currentColor = vec4 redColorValue greenColorValue blueColorValue alphaValue
      in if m_pShaderManager s \<noteq> NULL then
           Inr ([setIntValue g_UseTextureName 0, setVec4Value g_ColorValueName currentColor], s)
         else Inr ([], s))"

definition SetShaderTexture :: "string \<Rightarrow> step" where
  "SetShaderTexture textureTag s =
     (if m_pShaderManager s \<noteq> NULL then
        (case FindTextureSlot textureTag s of
           Inl e \<Rightarrow> Inl e
         | Inr textureID \<Rightarrow>
             Inr ([setIntValue g_UseTextureName 1,
                   setSampler2DValue g_TextureValueName textureID], s))
      else Inr ([], s))"

definition SetTextureUVScale :: "real \<Rightarrow> real \<Rightarrow> step" where
  "SetTextureUVScale u v s =
     (if m_pShaderManager s \<noteq> NULL then Inr ([setVec2Value ''UVscale'' (vec2 u v)], s)
      else Inr ([], s))"

text \<open>
  \<^verbatim>\<open>SetShaderMaterial\<close> calls through \<^verbatim>\<open>m_pShaderManager\<close> without a null check, and
  reads its local \<^verbatim>\<open>material\<close> whether or not \<^verbatim>\<open>FindMaterial\<close> assigned it.
\<close>

definition SetShaderMaterial :: "string \<Rightarrow> step" where
  "SetShaderMaterial materialTag s =
     (if length (m_objectMaterials s) > 0 then
        (let (bReturn, material) = FindMaterial materialTag None s
         in if bReturn = True then
              (case m_pShaderManager s of
                 NULL \<Rightarrow> Inl NullPointerDereference
               | Ptr p \<Rightarrow>
                   (case material of
                      None \<Rightarrow> Inl UninitializedRead
                    | Some m \<Rightarrow>
                        Inr ([setVec3Value ''material.ambientColor'' (ambientColor m),
                              setFloatValue ''material.ambientStrength'' (ambientStrength m),
                              setVec3Value ''material.diffuseColor'' (diffuseColor m),
                              setVec3Value ''material.specularColor'' (specularColor m),
                              setFloatValue ''material.shininess'' (shininess m)], s)))
            else Inr ([], s))
      else Inr ([], s))"

text \<open>\<^verbatim>\<open>m_basicMeshes->DrawXMesh()\<close> and \<^verbatim>\<open>m_basicMeshes->LoadXMesh()\<close>.\<close>

definition Draw :: "mesh \<Rightarrow> step" where
  "Draw m s = Inr ([DrawMesh m], s)"

definition Load :: "mesh \<Rightarrow> step" where
  "Load m s = Inr ([LoadMesh m], s)"

section \<open>Preparing the scene\<close>

text \<open>A call whose \<^verbatim>\<open>bool\<close> result is assigned to \<^verbatim>\<open>bReturn\<close> and never read.\<close>

definition call :: "(SceneManager \<Rightarrow> error + (bool \<times> op list \<times> SceneManager)) \<Rightarrow> step" where
  "call f s = (case f s of Inl e \<Rightarrow> Inl e | Inr (bReturn, ops, s') \<Rightarrow> Inr (ops, s'))"

text \<open>
  \<^verbatim>\<open>LoadSceneTextures\<close>: \<open>fresh n\<close> is the texture name OpenGL has for the \<open>n\<close>-th call
  of \<^verbatim>\<open>CreateGLTexture\<close>, should it get as far as \<^verbatim>\<open>glGenTextures\<close>.
\<close>

definition LoadSceneTextures :: "(string \<Rightarrow> image option) \<Rightarrow> (nat \<Rightarrow> 32 word) \<Rightarrow> step" where
  "LoadSceneTextures stbi_load fresh =
     sequence
      [call (CreateGLTexture stbi_load (fresh 0) ''../../Utilities/textures/marble.jpg'' ''marble''),
       call (CreateGLTexture stbi_load (fresh 1) ''../../Utilities/textures/superhero-face.jpg'' ''face''),
       call (CreateGLTexture stbi_load (fresh 2) ''../../Utilities/textures/superhero-body.jpg'' ''body''),
       call (CreateGLTexture stbi_load (fresh 3) ''../../Utilities/textures/superhero-arm.jpg'' ''arm''),
       call (CreateGLTexture stbi_load (fresh 4) ''../../Utilities/textures/superhero-leg.jpg'' ''leg''),
       call (CreateGLTexture stbi_load (fresh 5) ''../../Utilities/textures/soda-can.jpg'' ''can''),
       BindGLTextures]"

definition plasticMaterial :: OBJECT_MATERIAL where
  "plasticMaterial =
     \<lparr> ambientColor = vec3 0.2 0.2 0.2, ambientStrength = 0.3,
       diffuseColor = vec3 0.2 0.2 0.2, specularColor = vec3 0.4 0.4 0.4,
       shininess = 12, mtag = ''plastic'' \<rparr>"

definition metalMaterial :: OBJECT_MATERIAL where
  "metalMaterial =
     \<lparr> ambientColor = vec3 0.2 0.2 0.2, ambientStrength = 0.3,
       diffuseColor = vec3 0.2 0.2 0.2, specularColor = vec3 0.5 0.5 0.5,
       shininess = 22, mtag = ''metal'' \<rparr>"

definition clothMaterial :: OBJECT_MATERIAL where
  "clothMaterial =
     \<lparr> ambientColor = vec3 0.1 0.1 0.1, ambientStrength = 0.2,
       diffuseColor = vec3 0.3 0.3 0.3, specularColor = vec3 0.1 0.1 0.1,
       shininess = 0.3, mtag = ''cloth'' \<rparr>"

definition glassMaterial :: OBJECT_MATERIAL where
  "glassMaterial =
     \<lparr> ambientColor = vec3 0.4 0.4 0.4, ambientStrength = 0.3,
       diffuseColor = vec3 0.3 0.3 0.3, specularColor = vec3 0.6 0.6 0.6,
       shininess = 85, mtag = ''glass'' \<rparr>"

definition matteMaterial :: OBJECT_MATERIAL where
  "matteMaterial =
     \<lparr> ambientColor = vec3 0.2 0.2 0.2, ambientStrength = 0.2,
       diffuseColor = vec3 0.1 0.1 0.1, specularColor = vec3 0 0 0,
       shininess = 0, mtag = ''matteFinish'' \<rparr>"

definition push_back :: "OBJECT_MATERIAL \<Rightarrow> step" where
  "push_back m s = Inr ([], s\<lparr> m_objectMaterials := m_objectMaterials s @ [m] \<rparr>)"

definition DefineObjectMaterials :: step where
  "DefineObjectMaterials =
     sequence [push_back plasticMaterial, push_back metalMaterial, push_back clothMaterial, push_back glassMaterial, push_back matteMaterial]"

text \<open>\<^verbatim>\<open>SetupSceneLights\<close> calls through \<^verbatim>\<open>m_pShaderManager\<close> without a null check.\<close>

definition SetupSceneLights :: step where
  "SetupSceneLights s =
     (case m_pShaderManager s of
        NULL \<Rightarrow> Inl NullPointerDereference
      | Ptr p \<Rightarrow>
          Inr ([setBoolValue g_UseLightingName True,
                setVec3Value ''lightSources[0].position'' (vec3 7.75 10 (- 17.75)),
                setVec3Value ''lightSources[0].ambientColor'' (vec3 0.1 0.1 0.1),
                setVec3Value ''lightSources[0].diffuseColor'' (vec3 0.5 0.5 0.5),
                setVec3Value ''lightSources[0].specularColor'' (vec3 0.4 0.4 0.4),
                setFloatValue ''lightSources[0].focalStrength'' 32,
                setFloatValue ''lightSources[0].specularIntensity'' 0.7,
                setVec3Value ''lightSources[1].position'' (vec3 13 10 6),
                setVec3Value ''lightSources[1].ambientColor'' (vec3 0 0 0),
                setVec3Value ''lightSources[1].diffuseColor'' (vec3 0.5 0.5 0.5),
                setVec3Value ''lightSources[1].specularColor'' (vec3 0.2 0.2 0.2),
                setFloatValue ''lightSources[1].focalStrength'' 32,
                setFloatValue ''lightSources[1].specularIntensity'' 0.2,
                setVec3Value ''lightSources[2].position'' (vec3 (- 20) 10 2),
                setVec3Value ''lightSources[2].ambientColor'' (vec3 0 0 0),
                setVec3Value ''lightSources[2].diffuseColor'' (vec3 0 0 0),
                setVec3Value ''lightSources[2].specularColor'' (vec3 0 0 0),
                setFloatValue ''lightSources[2].focalStrength'' 12,
                setFloatValue ''lightSources[2].specularIntensity'' 0.2,
                setVec3Value ''lightSources[3].position'' (vec3 0 32 32),
                setVec3Value ''lightSources[3].ambientColor'' (vec3 0.2 0.2 0.2),
                setVec3Value ''lightSources[3].diffuseColor'' (vec3 0.5 0.5 0.5),
                setVec3Value ''lightSources[3].specularColor'' (vec3 0.6 0.6 0.1),
                setFloatValue ''lightSources[3].focalStrength'' 3,
                setFloatValue ''lightSources[3].specularIntensity'' 0.5], s))"

definition PrepareScene :: "(string \<Rightarrow> image option) \<Rightarrow> (nat \<Rightarrow> 32 word) \<Rightarrow> step" where
  "PrepareScene stbi_load fresh =
     sequence
      [LoadSceneTextures stbi_load fresh,
       DefineObjectMaterials,
       SetupSceneLights,
       Load BoxMesh, Load PlaneMesh, Load CylinderMesh, Load ConeMesh, Load PrismMesh,
       Load Pyramid4Mesh, Load SphereMesh, Load TaperedCylinderMesh, Load TorusMesh]"

section \<open>Rendering the scene\<close>

definition RenderDesktop :: step where
  "RenderDesktop =
     sequence
      [SetTransformations (vec3 20 1 30) 0 (- 25) 0 (vec3 10 (- 1) 0),
       SetShaderTexture ''marble'',
       SetTextureUVScale 1 1,
       SetShaderTexture ''glass'',
       Draw PlaneMesh]"

definition RenderLegoMan :: step where
  "RenderLegoMan =
     sequence
      [SetTransformations (vec3 1.75 2.7 1.5) 0 0 0 (vec3 (- 0.2) 0.4 0),
       SetShaderMaterial ''cloth'',
       SetShaderTexture ''leg'',
       Draw BoxMesh,
       SetTransformations (vec3 1.75 2.7 1.5) 0 0 0 (vec3 (- 2.2) 0.4 0),
       SetShaderMaterial ''cloth'',
       SetShaderTexture ''leg'',
       Draw BoxMesh,
       SetTransformations (vec3 4.2 1 1.7) 180 0 0 (vec3 (- 1.25) 2.05 0),
       SetShaderMaterial ''cloth'',
       SetShaderTexture ''leg'',
       Draw BoxMesh,
       SetTransformations (vec3 2.25 4 1.25) 0 180 0 (vec3 (- 1.25) 2.5 0),
       SetShaderMaterial ''cloth'',
       SetShaderTexture ''body'',
       Draw CylinderMesh,
       SetTransformations (vec3 2.25 0.1 1.25) 0 0 0 (vec3 (- 1.25) 6.5 0),
       SetShaderColor 0.2 0.2 0.2 1,
       SetShaderMaterial ''plastic'',
       Draw CylinderMesh,
       SetTransformations (vec3 0.5 0.5 0.5) 0 0 0 (vec3 (- 1.25) 6.5 0),
       SetShaderColor 0.2 0.2 0.2 1,
       SetShaderMaterial ''plastic'',
       Draw CylinderMesh,
       SetTransformations (vec3 1.5 1.75 1.5) 0 0 0 (vec3 (- 1.25) 8.5 0),
       SetShaderMaterial ''cloth'',
       SetShaderTexture ''face'',
       Draw SphereMesh,
       SetTransformations (vec3 0.5 3.5 0.5) 0 180 (- 10) (vec3 1.5 3 0),
       SetShaderTexture ''arm'',
       Draw CylinderMesh,
       SetTransformations (vec3 0.5 3.5 0.5) (- 30) 0 (- 10) (vec3 (- 4) 3 1.7),
       SetShaderTexture ''arm'',
       Draw CylinderMesh,
       SetTransformations (vec3 0.7 0.7 0.7) 0 0 0 (vec3 1.6 2.5 0),
       SetShaderColor 0.2 0.2 0.2 1,
       SetShaderMaterial ''plastic'',
       Draw SphereMesh,
       SetTransformations (vec3 0.7 0.7 0.7) 0 0 0 (vec3 (- 4.1) 2.5 2.1),
       SetShaderColor 0.2 0.2 0.2 1,
       Draw SphereMesh]"

definition RenderSodaCan :: step where
  "RenderSodaCan =
     sequence
      [SetTransformations (vec3 3.5 9 3.5) 0 0 0 (vec3 10 (- 0.9) 10),
       SetShaderColor 1 1 0 1,
       SetShaderMaterial ''plastic'',
       SetShaderTexture ''can'',
       Draw CylinderMesh,
       SetTransformations (vec3 3.5 0.1 3.5) 0 0 0 (vec3 10 8.1 10),
       SetShaderColor 0.7 0.7 0.7 1,
       SetShaderMaterial ''metal'',
       Draw TaperedCylinderMesh]"

definition RenderHeadPhones :: step where
  "RenderHeadPhones =
     sequence
      [SetTransformations (vec3 5 16 7) 90 (- 7.5) 255 (vec3 10 2.75 (- 3)),
       SetShaderColor 1 1 1 1,
       SetShaderMaterial ''matteFinish'',
       Draw HalfTorusMesh,
       SetTransformations (vec3 3.15 3.15 3.15) 0 90 90 (vec3 9 2.25 (- 0.25)),
       SetShaderColor 1 1 1 1,
       SetShaderMaterial ''matteFinish'',
       Draw CylinderMesh,
       SetTransformations (vec3 3.15 3.15 3.15) 0 115 90 (vec3 6 2.25 (- 7.75)),
       SetShaderColor 1 1 1 1,
       SetShaderMaterial ''matteFinish'',
       Draw CylinderMesh]"

definition RenderLampBase :: step where
  "RenderLampBase =
     sequence
      [SetTransformations (vec3 15 1.5 10.5) 0 0 0 (vec3 7.75 0 (- 17.75)),
       SetShaderColor 0.1 0.1 0.2 1,
       SetShaderMaterial ''plastic'',
       Draw BoxMesh,
       SetTransformations (vec3 4.5 4.5 8.25) 0 0 0 (vec3 2.5 1.5 (- 18.9)),
       SetShaderColor 0.1 0.1 0.2 1,
       SetShaderMaterial ''plastic'',
       Draw BoxMesh,
       SetTransformations (vec3 4.5 4.5 4.5) (- 90) 0 90 (vec3 2.5 1.5 (- 14.77)),
       SetShaderColor 0.1 0.1 0.2 1,
       SetShaderMaterial ''plastic'',
       Draw PrismMesh]"

definition RenderScene :: step where
  "RenderScene =
     sequence [RenderDesktop, RenderLegoMan, RenderSodaCan, RenderHeadPhones, RenderLampBase]"

section \<open>Notions the properties are stated with\<close>

text \<open>
  The registered entries are the first \<^verbatim>\<open>m_loadedTextures\<close> slots of the array. The
  counter stays within the array as long as no load has overrun it.
\<close>

definition loaded :: "SceneManager \<Rightarrow> TEXTURE_INFO list" where
  "loaded s = take (nat (m_loadedTextures s)) (m_textureIDs s)"

definition registry_ok :: "SceneManager \<Rightarrow> bool" where
  "registry_ok s =
     (0 \<le> m_loadedTextures s \<and> m_loadedTextures s \<le> int (length (m_textureIDs s)))"

text \<open>
  A request to \<^verbatim>\<open>CreateGLTexture\<close>: the name OpenGL would give the texture, the file and
  the tag. It succeeds when the file decodes to three or four channels. \<open>load_calls\<close>
  makes the calls one after the other, as \<^verbatim>\<open>LoadSceneTextures\<close> does for its six.
\<close>

definition succeeds :: "(string \<Rightarrow> image option) \<Rightarrow> 32 word \<times> string \<times> string \<Rightarrow> bool" where
  "succeeds stbi_load r =
     (case stbi_load (fst (snd r)) of None \<Rightarrow> False
      | Some img \<Rightarrow> colorChannels img = 3 \<or> colorChannels img = 4)"

definition load_calls :: "(string \<Rightarrow> image option) \<Rightarrow> (32 word \<times> string \<times> string) list \<Rightarrow> step" where
  "load_calls stbi_load reqs =
     sequence (map (\<lambda>(h, f, t). call (CreateGLTexture stbi_load h f t)) reqs)"

definition entry_of :: "32 word \<times> string \<times> string \<Rightarrow> TEXTURE_INFO" where
  "entry_of r = \<lparr> tag = snd (snd r), ID = fst r \<rparr>"

text \<open>The six calls of \<^verbatim>\<open>LoadSceneTextures\<close>, as requests.\<close>

definition scene_textures :: "(nat \<Rightarrow> 32 word) \<Rightarrow> (32 word \<times> string \<times> string) list" where
  "scene_textures fresh =
     [(fresh 0, ''../../Utilities/textures/marble.jpg'', ''marble''),
      (fresh 1, ''../../Utilities/textures/superhero-face.jpg'', ''face''),
      (fresh 2, ''../../Utilities/textures/superhero-body.jpg'', ''body''),
      (fresh 3, ''../../Utilities/textures/superhero-arm.jpg'', ''arm''),
      (fresh 4, ''../../Utilities/textures/superhero-leg.jpg'', ''leg''),
      (fresh 5, ''../../Utilities/textures/soda-can.jpg'', ''can'')]"

text \<open>
  The draw-preparation invariant, read off a trace of calls. A transform push is the
  write of the \<^verbatim>\<open>model\<close> matrix; a surface push is a write of a material parameter, of the
  texture sampler or of the flat colour. \<open>track\<close> follows, since the last draw, whether a
  transform push has been seen and whether a surface push has followed it; a draw in
  any other situation is refused.
\<close>

fun is_draw :: "op \<Rightarrow> bool" where
  "is_draw (DrawMesh m) = True"
| "is_draw _ = False"

fun is_transform_push :: "op \<Rightarrow> bool" where
  "is_transform_push (setMat4Value n m) = (n = g_ModelName)"
| "is_transform_push _ = False"

fun is_material_push :: "op \<Rightarrow> bool" where
  "is_material_push (setVec3Value n v) =
     (n = ''material.ambientColor'' \<or> n = ''material.diffuseColor'' \<or> n = ''material.specularColor'')"
| "is_material_push (setFloatValue n x) =
     (n = ''material.ambientStrength'' \<or> n = ''material.shininess'')"
| "is_material_push _ = False"

fun is_texture_push :: "op \<Rightarrow> bool" where
  "is_texture_push (setSampler2DValue n i) = (n = g_TextureValueName)"
| "is_texture_push _ = False"

fun is_color_push :: "op \<Rightarrow> bool" where
  "is_color_push (setVec4Value n v) = (n = g_ColorValueName)"
| "is_color_push _ = False"

definition is_surface_push :: "op \<Rightarrow> bool" where
  "is_surface_push x = (is_material_push x \<or> is_texture_push x \<or> is_color_push x)"

datatype prep = NoTransform | TransformPushed | SurfacePushed

definition track :: "prep \<Rightarrow> op \<Rightarrow> prep option" where
  "track st x =
     (if is_draw x then (if st = SurfacePushed then Some NoTransform else None)
      else if is_transform_push x then Some (if st = NoTransform then TransformPushed else st)
      else if is_surface_push x then Some (if st = TransformPushed then SurfacePushed else st)
      else Some st)"

fun tracks :: "prep \<Rightarrow> op list \<Rightarrow> prep option" where
  "tracks st [] = Some st"
| "tracks st (x # xs) = (case track st x of None \<Rightarrow> None | Some st' \<Rightarrow> tracks st' xs)"

definition draws_prepared :: "op list \<Rightarrow> bool" where
  "draws_prepared ops = (tracks NoTransform ops \<noteq> None)"

text \<open>
  How far a statement brings the preparation of the next draw, for the proofs: from
  level \<open>a\<close> at least to level \<open>b\<close> at least, on a scene manager it leaves as it is.
\<close>

fun level :: "prep \<Rightarrow> nat" where
  "level NoTransform = 0"
| "level TransformPushed = 1"
| "level SurfacePushed = 2"

definition advances :: "nat \<Rightarrow> step \<Rightarrow> nat \<Rightarrow> bool" where
  "advances a f b =
     (\<forall>s ops s' st. m_pShaderManager s \<noteq> NULL \<and> f s = Inr (ops, s') \<and> a \<le> level st \<longrightarrow>
        s' = s \<and> (\<exists>st'. tracks st ops = Some st' \<and> b \<le> level st'))"

definition unchanged :: "step \<Rightarrow> bool" where
  "unchanged f = (\<forall>s ops s'. f s = Inr (ops, s') \<longrightarrow> s' = s)"

definition runs :: "SceneManager \<Rightarrow> step \<Rightarrow> bool" where
  "runs s f = (\<exists>ops. f s = Inr (ops, s))"

text \<open>What \<^verbatim>\<open>PrepareScene\<close> establishes and the render routines rely on.\<close>

definition scene_ready :: "SceneManager \<Rightarrow> bool" where
  "scene_ready s = (m_pShaderManager s \<noteq> NULL \<and> registry_ok s \<and>
     m_objectMaterials s = [plasticMaterial, metalMaterial, clothMaterial, glassMaterial, matteMaterial])"

text \<open>
  The same invariant said of the calls before a draw: somewhere among them is a
  transform push, a surface push comes after it, and no draw comes after the transform
  push.
\<close>

definition transform_then_surface :: "op list \<Rightarrow> bool" where
  "transform_then_surface pre =
     (\<exists>a t b p c. pre = a @ t # b @ p # c \<and> is_transform_push t \<and> is_surface_push p \<and>
                  (\<forall>x\<in>set (b @ c). \<not> is_draw x))"

text \<open>The invariant with a head start: the state \<open>track\<close> is in when the calls begin.\<close>

definition ready_for :: "prep \<Rightarrow> op list \<Rightarrow> bool" where
  "ready_for st pre =
     (transform_then_surface pre \<or>
      (\<forall>y\<in>set pre. \<not> is_draw y) \<and>
      (st = SurfacePushed \<or> st = TransformPushed \<and> (\<exists>p\<in>set pre. is_surface_push p)))"

lemma sequence_append:
  "sequence (fs @ gs) s =
     (case sequence fs s of Inl e \<Rightarrow> Inl e
      | Inr (ops, s') \<Rightarrow> (case sequence gs s' of Inl e \<Rightarrow> Inl e | Inr (ops', s'') \<Rightarrow> Inr (ops @ ops', s'')))"
  by (induction fs arbitrary: s) (auto split: sum.splits prod.splits)

section \<open>Texture lookup\<close>



lemma slot_loop_hit:
  "m_loadedTextures s \<le> int (length (m_textureIDs s)) \<Longrightarrow> 0 \<le> index \<Longrightarrow>
   index \<le> k \<Longrightarrow> k < m_loadedTextures s \<Longrightarrow> tag (m_textureIDs s ! nat k) = tg \<Longrightarrow>
   (\<forall>i. index \<le> i \<and> i < k \<longrightarrow> tag (m_textureIDs s ! nat i) \<noteq> tg) \<Longrightarrow>
   FindTextureSlot_loop tg s r index False = Inr k"
proof (induction tg s r index "False" rule: FindTextureSlot_loop.induct)
  case (1 tg s textureSlot index)
  show ?case
  proof (cases "index = k")
    case True
    with 1(3-) show ?thesis
      by (subst FindTextureSlot_loop.simps, simp add: in_bounds_def, subst FindTextureSlot_loop.simps, simp)
  next
    case False
    with 1(3-) have ne: "tag (m_textureIDs s ! nat index) \<noteq> tg" and lt: "index < k" by auto
    have "FindTextureSlot_loop tg s textureSlot (index + 1) False = Inr k"
      using 1(2)[of ] 1(3-) ne lt by (simp add: in_bounds_def)
    then show ?thesis using 1(3-) ne lt by (subst FindTextureSlot_loop.simps) (simp add: in_bounds_def)
  qed
qed

lemma id_loop_hit:
  "m_loadedTextures s \<le> int (length (m_textureIDs s)) \<Longrightarrow> 0 \<le> index \<Longrightarrow>
   index \<le> k \<Longrightarrow> k < m_loadedTextures s \<Longrightarrow> tag (m_textureIDs s ! nat k) = tg \<Longrightarrow>
   (\<forall>i. index \<le> i \<and> i < k \<longrightarrow> tag (m_textureIDs s ! nat i) \<noteq> tg) \<Longrightarrow>
   FindTextureID_loop tg s r index False = Inr (sint (ID (m_textureIDs s ! nat k)))"
proof (induction tg s r index "False" rule: FindTextureID_loop.induct)
  case (1 tg s textureID index)
  show ?case
  proof (cases "index = k")
    case True
    with 1(3-) show ?thesis
      by (subst FindTextureID_loop.simps, simp add: in_bounds_def, subst FindTextureID_loop.simps, simp)
  next
    case False
    with 1(3-) have ne: "tag (m_textureIDs s ! nat index) \<noteq> tg" and lt: "index < k" by auto
    have "FindTextureID_loop tg s textureID (index + 1) False = Inr (sint (ID (m_textureIDs s ! nat k)))"
      using 1(2)[of ] 1(3-) ne lt by (simp add: in_bounds_def)
    then show ?thesis using 1(3-) ne lt by (subst FindTextureID_loop.simps) (simp add: in_bounds_def)
  qed
qed

lemma loaded_nth: "registry_ok s \<Longrightarrow> 0 \<le> i \<Longrightarrow> i < m_loadedTextures s \<Longrightarrow> loaded s ! nat i = m_textureIDs s ! nat i"
  by (simp add: loaded_def registry_ok_def)

lemma length_loaded: "registry_ok s \<Longrightarrow> length (loaded s) = nat (m_loadedTextures s)"
  by (auto simp: loaded_def registry_ok_def)


lemma find_hit:
  assumes "registry_ok s" "k < length (loaded s)" "distinct (map tag (loaded s))"
  shows "FindTextureSlot (tag (loaded s ! k)) s = Inr (int k)"
        "FindTextureID (tag (loaded s ! k)) s = Inr (sint (ID (loaded s ! k)))"
proof -
  have len: "length (loaded s) = nat (m_loadedTextures s)" using assms(1) by (rule length_loaded)
  have k: "int k < m_loadedTextures s" using assms(2) len by simp
  have eq: "loaded s ! k = m_textureIDs s ! nat (int k)" using loaded_nth[OF assms(1), of "int k"] k by simp
  have *: "\<forall>i. 0 \<le> i \<and> i < int k \<longrightarrow> tag (m_textureIDs s ! nat i) \<noteq> tag (loaded s ! k)"
  proof (intro allI impI)
    fix i assume i: "0 \<le> i \<and> i < int k"
    then have lt: "nat i < k" by linarith
    have "tag (loaded s ! nat i) \<noteq> tag (loaded s ! k)"
      using nth_eq_iff_index_eq[OF assms(3), of "nat i" k] assms(2) lt by auto
    moreover have "loaded s ! nat i = m_textureIDs s ! nat i"
      using loaded_nth[OF assms(1), of i] i k by simp
    ultimately show "tag (m_textureIDs s ! nat i) \<noteq> tag (loaded s ! k)" by simp
  qed
  show "FindTextureSlot (tag (loaded s ! k)) s = Inr (int k)" unfolding FindTextureSlot_def
    using assms(1) k eq * by (intro slot_loop_hit) (auto simp: registry_ok_def)
  have "FindTextureID (tag (loaded s ! k)) s = Inr (sint (ID (m_textureIDs s ! nat (int k))))"
    unfolding FindTextureID_def
    using assms(1) k eq * by (intro id_loop_hit) (auto simp: registry_ok_def)
  then show "FindTextureID (tag (loaded s ! k)) s = Inr (sint (ID (loaded s ! k)))" using eq by simp
qed

lemma call_load_fail:
  "\<not> succeeds stbi_load (h, f, t) \<Longrightarrow> call (CreateGLTexture stbi_load h f t) s = Inr (ops, s') \<Longrightarrow> s' = s"
  by (auto simp: call_def CreateGLTexture_def succeeds_def Let_def split: option.splits sum.splits if_splits)

lemma call_load_ok:
  assumes "succeeds stbi_load (h, f, t)" "call (CreateGLTexture stbi_load h f t) s = Inr (ops, s')" "registry_ok s"
  shows "registry_ok s' \<and> loaded s' = loaded s @ [entry_of (h, f, t)] \<and>
         length (m_textureIDs s') = length (m_textureIDs s) \<and>
         m_pShaderManager s' = m_pShaderManager s \<and> m_objectMaterials s' = m_objectMaterials s"
proof -
  let ?n = "nat (m_loadedTextures s)"
  let ?e = "(m_textureIDs s ! ?n)\<lparr> ID := h, tag := t \<rparr>"
  have ib: "in_bounds s (m_loadedTextures s)" and
       s': "s' = s\<lparr> m_textureIDs := (m_textureIDs s)[?n := ?e], m_loadedTextures := m_loadedTextures s + 1 \<rparr>"
    using assms(1,2)
    by (auto simp: call_def CreateGLTexture_def succeeds_def Let_def split: option.splits sum.splits if_splits)
  have n: "?n < length (m_textureIDs s)" using ib by (auto simp: in_bounds_def nat_less_iff)
  have e: "?e = entry_of (h, f, t)" by (simp add: entry_of_def)
  have "take (Suc ?n) ((m_textureIDs s)[?n := ?e]) = take ?n (m_textureIDs s) @ [?e]"
    using n by (simp add: take_Suc_conv_app_nth)
  moreover have "nat (m_loadedTextures s + 1) = Suc ?n" using ib by (auto simp: in_bounds_def nat_add_distrib)
  ultimately have "loaded s' = loaded s @ [entry_of (h, f, t)]"
    unfolding loaded_def s' using e by simp
  then show ?thesis using ib assms(3) by (simp add: s' registry_ok_def in_bounds_def)
qed

lemma load_calls_loaded:
  "load_calls stbi_load reqs s = Inr (ops, s') \<Longrightarrow> registry_ok s \<Longrightarrow>
   registry_ok s' \<and> loaded s' = loaded s @ map entry_of (filter (succeeds stbi_load) reqs) \<and>
   length (m_textureIDs s') = length (m_textureIDs s) \<and>
   m_pShaderManager s' = m_pShaderManager s \<and> m_objectMaterials s' = m_objectMaterials s"
proof (induction reqs arbitrary: s ops)
  case Nil
  then show ?case by (simp add: load_calls_def)
next
  case (Cons r reqs)
  obtain h f t where r: "r = (h, f, t)" by (cases r) auto
  from Cons.prems(1) obtain ops1 s1 ops2 where
    c1: "call (CreateGLTexture stbi_load h f t) s = Inr (ops1, s1)" and
    c2: "load_calls stbi_load reqs s1 = Inr (ops2, s')"
    by (auto simp: load_calls_def r split: sum.splits prod.splits)
  show ?case
  proof (cases "succeeds stbi_load r")
    case True
    from call_load_ok[OF True[unfolded r] c1 Cons.prems(2)] Cons.IH[OF c2] True
    show ?thesis by (simp add: r)
  next
    case False
    from call_load_fail[OF False[unfolded r] c1] Cons.IH[OF c2] Cons.prems(2) False
    show ?thesis by (simp add: r)
  qed
qed

lemma filter_nth_count:
  assumes "i < length xs" "P (xs ! i)"
  shows "length (filter P (take i xs)) < length (filter P xs) \<and>
         filter P xs ! length (filter P (take i xs)) = xs ! i"
proof -
  have "xs = take i xs @ xs ! i # drop (Suc i) xs" using assms(1) by (rule id_take_nth_drop)
  then have "filter P xs = filter P (take i xs) @ xs ! i # filter P (drop (Suc i) xs)"
    using assms(2) by (metis filter.simps(2) filter_append)
  then show ?thesis by (simp add: nth_append)
qed

lemma loaded_ctor: "loaded (SceneManager_ctor p) = []" "registry_ok (SceneManager_ctor p)"
  by (simp_all add: loaded_def registry_ok_def SceneManager_ctor_def)

section \<open>The prepared scene\<close>

lemma sequence_ConsD:
  "sequence (f # fs) s = Inr (ops, s'') \<Longrightarrow>
   \<exists>ops1 s1 ops2. f s = Inr (ops1, s1) \<and> sequence fs s1 = Inr (ops2, s'') \<and> ops = ops1 @ ops2"
  by (auto split: sum.splits prod.splits)

lemma Load_eq: "Load m s = Inr ([LoadMesh m], s)"
  by (simp add: Load_def)

lemma SetupSceneLights_state: "SetupSceneLights s = Inr (ops, s') \<Longrightarrow> s' = s \<and> m_pShaderManager s \<noteq> NULL"
  by (auto simp: SetupSceneLights_def split: pointer.splits)

lemma slot_loop_total:
  "registry_ok s \<Longrightarrow> 0 \<le> index \<Longrightarrow> \<exists>k. FindTextureSlot_loop tg s r index b = Inr k"
proof (induction tg s r index b rule: FindTextureSlot_loop.induct)
  case (1 tg s textureSlot index bFound)
  show ?case
  proof (cases "index < m_loadedTextures s \<and> bFound = False")
    case True
    then have ib: "in_bounds s index" using 1(3,4) by (simp add: in_bounds_def registry_ok_def)
    show ?thesis
    proof (cases "tag (m_textureIDs s ! nat index) = tg")
      case t: True
      have "\<exists>k. FindTextureSlot_loop tg s index index True = Inr k"
        using 1(1) True ib t 1(3,4) by blast
      then show ?thesis using True ib t
        by (subst FindTextureSlot_loop.simps) simp
    next
      case f: False
      have "0 \<le> index + 1" using 1(4) by simp
      then have "\<exists>k. FindTextureSlot_loop tg s textureSlot (index + 1) bFound = Inr k"
        using 1(2) True ib f 1(3) by blast
      then show ?thesis using True ib f
        by (subst FindTextureSlot_loop.simps) simp
    qed
  next
    case False
    show ?thesis using False
      by (subst FindTextureSlot_loop.simps) auto
  qed
qed

lemma FindTextureSlot_total: "registry_ok s \<Longrightarrow> \<exists>k. FindTextureSlot tg s = Inr k"
  unfolding FindTextureSlot_def by (rule slot_loop_total) simp_all

lemma BindGLTextures_loop_state: "BindGLTextures_loop i s = Inr (ops, s') \<Longrightarrow> s' = s"
proof (induction i s arbitrary: ops rule: BindGLTextures_loop.induct)
  case (1 i s)
  show ?case
  proof (cases "i < m_loadedTextures s")
    case True
    from 1(2) have "in_bounds s i \<and> (\<exists>ops1. BindGLTextures_loop (i + 1) s = Inr (ops1, s'))"
      by (subst (asm) BindGLTextures_loop.simps)
         (auto simp: True split: if_splits sum.splits prod.splits)
    with 1(1) True show ?thesis by blast
  next
    case False
    from 1(2) show ?thesis
      by (subst (asm) BindGLTextures_loop.simps) (simp add: False)
  qed
qed

lemma LoadSceneTextures_unfold:
  "LoadSceneTextures stbi_load fresh s =
     (case load_calls stbi_load (scene_textures fresh) s of
        Inl e \<Rightarrow> Inl e
      | Inr (ops, s') \<Rightarrow>
          (case BindGLTextures s' of Inl e \<Rightarrow> Inl e | Inr (ops', s'') \<Rightarrow> Inr (ops @ ops', s'')))"
proof -
  have "LoadSceneTextures stbi_load fresh =
          sequence (map (\<lambda>(h, f, t). call (CreateGLTexture stbi_load h f t)) (scene_textures fresh)
                    @ [BindGLTextures])"
    by (simp add: LoadSceneTextures_def scene_textures_def)
  then show ?thesis
    by (simp add: sequence_append load_calls_def split: sum.splits prod.splits)
qed

lemma LoadSceneTextures_state:
  assumes "LoadSceneTextures stbi_load fresh s = Inr (ops, s')" "registry_ok s"
  shows "registry_ok s' \<and>
         loaded s' = loaded s @ map entry_of (filter (succeeds stbi_load) (scene_textures fresh)) \<and>
         m_pShaderManager s' = m_pShaderManager s \<and> m_objectMaterials s' = m_objectMaterials s"
proof -
  from assms(1) obtain ops1 s1 ops2 where
    l: "load_calls stbi_load (scene_textures fresh) s = Inr (ops1, s1)" and
    b: "BindGLTextures s1 = Inr (ops2, s')"
    by (auto simp: LoadSceneTextures_unfold split: sum.splits prod.splits)
  from b have "s' = s1" unfolding BindGLTextures_def by (rule BindGLTextures_loop_state)
  with load_calls_loaded[OF l assms(2)] show ?thesis by simp
qed

lemma DefineObjectMaterials_eq:
  "DefineObjectMaterials s =
     Inr ([], s\<lparr> m_objectMaterials := m_objectMaterials s @
                  [plasticMaterial, metalMaterial, clothMaterial, glassMaterial, matteMaterial] \<rparr>)"
  by (simp add: DefineObjectMaterials_def push_back_def)

lemma scene_tags:
  "set (map tag (map entry_of (filter (succeeds stbi_load) (scene_textures fresh))))
     \<subseteq> {''marble'', ''face'', ''body'', ''arm'', ''leg'', ''can''}"
proof -
  have "set (map tag (map entry_of (filter (succeeds stbi_load) (scene_textures fresh))))
          \<subseteq> set (map tag (map entry_of (scene_textures fresh)))" by auto
  also have "\<dots> = {''marble'', ''face'', ''body'', ''arm'', ''leg'', ''can''}"
    by (simp add: scene_textures_def entry_of_def)
  finally show ?thesis .
qed

lemma prepared_scene:
  assumes "PrepareScene stbi_load fresh (SceneManager_ctor p) = Inr (pops, s)"
  shows "registry_ok s" 
    and "set (map tag (loaded s)) \<subseteq> {''marble'', ''face'', ''body'', ''arm'', ''leg'', ''can''}"
    and "m_objectMaterials s = [plasticMaterial, metalMaterial, clothMaterial, glassMaterial, matteMaterial]"
    and "m_pShaderManager s \<noteq> NULL"
proof -
  let ?s0 = "SceneManager_ctor p"
  from sequence_ConsD[OF assms[unfolded PrepareScene_def]] obtain ops1 s1 ops2 where
    l: "LoadSceneTextures stbi_load fresh ?s0 = Inr (ops1, s1)" and
    r: "sequence [DefineObjectMaterials, SetupSceneLights,
                  Load BoxMesh, Load PlaneMesh, Load CylinderMesh, Load ConeMesh, Load PrismMesh,
                  Load Pyramid4Mesh, Load SphereMesh, Load TaperedCylinderMesh, Load TorusMesh] s1
          = Inr (ops2, s)"
    by blast
  let ?s2 = "s1\<lparr> m_objectMaterials := m_objectMaterials s1 @
                  [plasticMaterial, metalMaterial, clothMaterial, glassMaterial, matteMaterial] \<rparr>"
  from sequence_ConsD[OF r] obtain ops3 where
    r2: "sequence [SetupSceneLights,
                  Load BoxMesh, Load PlaneMesh, Load CylinderMesh, Load ConeMesh, Load PrismMesh,
                  Load Pyramid4Mesh, Load SphereMesh, Load TaperedCylinderMesh, Load TorusMesh] ?s2
          = Inr (ops3, s)"
    by (auto simp: DefineObjectMaterials_eq)
  from sequence_ConsD[OF r2] obtain ops4 s3 ops5 where
    li: "SetupSceneLights ?s2 = Inr (ops4, s3)" and
    r3: "sequence [Load BoxMesh, Load PlaneMesh, Load CylinderMesh, Load ConeMesh, Load PrismMesh,
                  Load Pyramid4Mesh, Load SphereMesh, Load TaperedCylinderMesh, Load TorusMesh] s3
          = Inr (ops5, s)"
    by blast
  from r3 have "s = s3" by (simp add: Load_eq)
  with SetupSceneLights_state[OF li] have nn: "m_pShaderManager s1 \<noteq> NULL" and s: "s = ?s2"
    by simp_all
  from LoadSceneTextures_state[OF l loaded_ctor(2)]
  have 1: "registry_ok s1" and 2: "loaded s1 = map entry_of (filter (succeeds stbi_load) (scene_textures fresh))"
    and 3: "m_objectMaterials s1 = []"
    by (simp_all add: loaded_ctor) (simp add: SceneManager_ctor_def)
  show "registry_ok s" using 1 by (simp add: s registry_ok_def)
  have "loaded s = loaded s1" by (simp add: s loaded_def)
  then show "set (map tag (loaded s)) \<subseteq> {''marble'', ''face'', ''body'', ''arm'', ''leg'', ''can''}"
    using scene_tags[of stbi_load fresh] 2 by simp
  show "m_objectMaterials s = [plasticMaterial, metalMaterial, clothMaterial, glassMaterial, matteMaterial]"
    using 3 by (simp add: s)
  show "m_pShaderManager s \<noteq> NULL" using nn by (simp add: s)
qed

section \<open>The setters with a shader manager\<close>

lemma SetTransformations_nonnull:
  "m_pShaderManager s \<noteq> NULL \<Longrightarrow>
   SetTransformations sc rx ry rz pos s = Inr ([setMat4Value g_ModelName (modelView sc rx ry rz pos)], s)"
  by (simp add: SetTransformations_def)


lemma SetTextureUVScale_nonnull:
  "m_pShaderManager s \<noteq> NULL \<Longrightarrow>
   SetTextureUVScale u v s = Inr ([setVec2Value ''UVscale'' (vec2 u v)], s)"
  by (simp add: SetTextureUVScale_def)

lemma SetShaderColor_nonnull:
  "m_pShaderManager s \<noteq> NULL \<Longrightarrow>
   SetShaderColor r g b a s =
     Inr ([setIntValue g_UseTextureName 0, setVec4Value g_ColorValueName (vec4 r g b a)], s)"
  by (simp add: SetShaderColor_def)

lemma Draw_eq: "Draw m s = Inr ([DrawMesh m], s)"
  by (simp add: Draw_def)

section \<open>Material lookup\<close>

lemma FindMaterial_loop_done: "FindMaterial_loop tg s material index True = material"
  by (subst FindMaterial_loop.simps) (simp del: FindMaterial_loop.simps)

lemma FindMaterial_loop_find:
  "0 \<le> index \<Longrightarrow>
   FindMaterial_loop tg s material index False =
     (case find (\<lambda>m. mtag m = tg) (drop (nat index) (m_objectMaterials s)) of
        None \<Rightarrow> material
      | Some m \<Rightarrow> Some (assign_fields material m))"
proof (induction tg s material index "False" rule: FindMaterial_loop.induct)
  case (1 tg s material index)
  let ?ms = "m_objectMaterials s"
  show ?case
  proof (cases "index < int (length ?ms)")
    case True
    then have n: "nat index < length ?ms" using 1(3) by (simp add: nat_less_iff)
    have d: "drop (nat index) ?ms = ?ms ! nat index # drop (Suc (nat index)) ?ms"
      using n by (simp add: Cons_nth_drop_Suc)
    have suc: "nat (index + 1) = Suc (nat index)" using 1(3) by (simp add: nat_add_distrib)
    show ?thesis
    proof (cases "mtag (?ms ! nat index) = tg")
      case t: True
      show ?thesis using True t 1(3)
        by (subst FindMaterial_loop.simps)
           (simp del: FindMaterial_loop.simps add: FindMaterial_loop_done d)
    next
      case f: False
      have "FindMaterial_loop tg s material (index + 1) False =
              (case find (\<lambda>m. mtag m = tg) (drop (nat (index + 1)) ?ms) of
                 None \<Rightarrow> material | Some m \<Rightarrow> Some (assign_fields material m))"
        using 1(2) True f 1(3) by simp
      then show ?thesis using True f 1(3)
        by (subst FindMaterial_loop.simps)
           (simp del: FindMaterial_loop.simps add: d suc)
    qed
  next
    case False
    then show ?thesis using 1(3)
      by (subst FindMaterial_loop.simps) (simp del: FindMaterial_loop.simps)
  qed
qed

lemma FindMaterial_first_match:
  "find (\<lambda>m. mtag m = tg) (m_objectMaterials s) = Some m \<Longrightarrow>
   FindMaterial tg material s = (True, Some (assign_fields material m))"
  by (auto simp: FindMaterial_def FindMaterial_loop_find)

lemma FindMaterial_miss:
  "m_objectMaterials s \<noteq> [] \<Longrightarrow> tg \<notin> set (map mtag (m_objectMaterials s)) \<Longrightarrow>
   FindMaterial tg material s = (True, material)"
proof -
  assume ne: "m_objectMaterials s \<noteq> []" and "tg \<notin> set (map mtag (m_objectMaterials s))"
  then have "find (\<lambda>m. mtag m = tg) (m_objectMaterials s) = None"
    by (auto simp: find_None_iff)
  then show ?thesis using ne by (simp add: FindMaterial_def FindMaterial_loop_find)
qed

section \<open>Texture teardown\<close>

lemma DestroyGLTextures_loop_never_deletes:
  "DestroyGLTextures_loop fresh i s = Inr (ops, s') \<Longrightarrow> glDeleteTextures h \<notin> set ops"
proof (induction fresh i s arbitrary: ops rule: DestroyGLTextures_loop.induct)
  case (1 fresh i s)
  let ?s1 = "s\<lparr> m_textureIDs := (m_textureIDs s)[nat i := (m_textureIDs s ! nat i)\<lparr> ID := fresh i \<rparr>] \<rparr>"
  show ?case
  proof (cases "i < m_loadedTextures s")
    case True
    from 1(2) have "in_bounds s i \<and>
        (\<exists>ops1. DestroyGLTextures_loop fresh (i + 1) ?s1 = Inr (ops1, s') \<and> ops = glGenTextures (fresh i) # ops1)"
      by (subst (asm) DestroyGLTextures_loop.simps)
         (auto simp del: DestroyGLTextures_loop.simps simp: True split: if_splits sum.splits prod.splits)
    then obtain ops1 where ib: "in_bounds s i"
      and r: "DestroyGLTextures_loop fresh (i + 1) ?s1 = Inr (ops1, s')"
      and o: "ops = glGenTextures (fresh i) # ops1" by blast
    from 1(1)[OF True _ r] ib have "glDeleteTextures h \<notin> set ops1" by simp
    then show ?thesis by (simp add: o)
  next
    case False
    from 1(2) show ?thesis
      by (subst (asm) DestroyGLTextures_loop.simps) (simp del: DestroyGLTextures_loop.simps add: False)
  qed
qed

lemma DestroyGLTextures_never_deletes:
  "DestroyGLTextures fresh s = Inr (ops, s') \<Longrightarrow> glDeleteTextures h \<notin> set ops"
  unfolding DestroyGLTextures_def by (rule DestroyGLTextures_loop_never_deletes)

section \<open>Draw preparation in the render routines\<close>

lemma tracks_append:
  "tracks st (xs @ ys) = (case tracks st xs of None \<Rightarrow> None | Some st' \<Rightarrow> tracks st' ys)"
  by (induction xs arbitrary: st) (auto split: option.splits)

lemma advances_nil: "advances a (sequence []) a"
  by (auto simp: advances_def)

lemma advances_cons:
  assumes "advances a f b" "advances b (sequence fs) c"
  shows "advances a (sequence (f # fs)) c"
  unfolding advances_def
proof (intro allI impI, elim conjE)
  fix s ops s' st
  assume nn: "m_pShaderManager s \<noteq> NULL" and run: "sequence (f # fs) s = Inr (ops, s')"
    and a: "a \<le> level st"
  from sequence_ConsD[OF run] obtain ops1 s1 ops2 where
    f: "f s = Inr (ops1, s1)" and r: "sequence fs s1 = Inr (ops2, s')" and o: "ops = ops1 @ ops2"
    by blast
  from assms(1) nn f a obtain st1 where s1: "s1 = s" and t1: "tracks st ops1 = Some st1"
    and b: "b \<le> level st1" unfolding advances_def by blast
  from assms(2) nn r[unfolded s1] b obtain st2 where s2: "s' = s" and t2: "tracks st1 ops2 = Some st2"
    and c: "c \<le> level st2" unfolding advances_def by blast
  show "s' = s \<and> (\<exists>st'. tracks st ops = Some st' \<and> c \<le> level st')"
    using s2 t1 t2 c by (auto simp: o tracks_append)
qed

lemma advances_SetTransformations: "advances a (SetTransformations sc rx ry rz pos) (Suc 0)"
  unfolding advances_def
proof (intro allI impI, elim conjE)
  fix s ops s' st
  assume nn: "m_pShaderManager s \<noteq> NULL"
    and run: "SetTransformations sc rx ry rz pos s = Inr (ops, s')"
  from run have "s' = s" and "ops = [setMat4Value g_ModelName (modelView sc rx ry rz pos)]"
    by (simp_all add: SetTransformations_nonnull[OF nn])
  then show "s' = s \<and> (\<exists>st'. tracks st ops = Some st' \<and> Suc 0 \<le> level st')"
    by (cases st) (simp_all add: track_def)
qed

lemma advances_SetShaderTexture: "advances (Suc a) (SetShaderTexture tg) (Suc (Suc 0))"
  unfolding advances_def
proof (intro allI impI, elim conjE)
  fix s ops s' st
  assume nn: "m_pShaderManager s \<noteq> NULL"
    and run: "SetShaderTexture tg s = Inr (ops, s')" and a: "Suc a \<le> level st"
  from run nn obtain k where "s' = s"
    and "ops = [setIntValue g_UseTextureName 1, setSampler2DValue g_TextureValueName k]"
    by (auto simp: SetShaderTexture_def split: sum.splits)
  then show "s' = s \<and> (\<exists>st'. tracks st ops = Some st' \<and> Suc (Suc 0) \<le> level st')"
    using a by (cases st) (simp_all add: track_def is_surface_push_def)
qed

lemma advances_SetShaderColor: "advances (Suc a) (SetShaderColor r g b al) (Suc (Suc 0))"
  unfolding advances_def
proof (intro allI impI, elim conjE)
  fix s ops s' st
  assume nn: "m_pShaderManager s \<noteq> NULL"
    and run: "SetShaderColor r g b al s = Inr (ops, s')" and a: "Suc a \<le> level st"
  from run have "s' = s"
    and "ops = [setIntValue g_UseTextureName 0, setVec4Value g_ColorValueName (vec4 r g b al)]"
    by (simp_all add: SetShaderColor_nonnull[OF nn])
  then show "s' = s \<and> (\<exists>st'. tracks st ops = Some st' \<and> Suc (Suc 0) \<le> level st')"
    using a by (cases st) (simp_all add: track_def is_surface_push_def)
qed

lemma advances_SetTextureUVScale: "advances a (SetTextureUVScale u v) a"
  unfolding advances_def
proof (intro allI impI, elim conjE)
  fix s ops s' st
  assume nn: "m_pShaderManager s \<noteq> NULL"
    and run: "SetTextureUVScale u v s = Inr (ops, s')" and a: "a \<le> level st"
  from run have "s' = s" and "ops = [setVec2Value ''UVscale'' (vec2 u v)]"
    by (simp_all add: SetTextureUVScale_nonnull[OF nn])
  then show "s' = s \<and> (\<exists>st'. tracks st ops = Some st' \<and> a \<le> level st')"
    using a by (simp add: track_def is_surface_push_def)
qed

lemma SetShaderMaterial_cases:
  assumes "SetShaderMaterial tg s = Inr (ops, s')"
  shows "s' = s \<and> list_all is_material_push ops"
  using assms
  by (auto simp: SetShaderMaterial_def split: if_splits prod.splits pointer.splits option.splits)

lemma tracks_material:
  "list_all is_material_push ops \<Longrightarrow> \<exists>st'. tracks st ops = Some st' \<and> level st \<le> level st'"
proof (induction ops arbitrary: st)
  case Nil
  then show ?case by simp
next
  case (Cons x xs)
  then have x: "is_material_push x" and xs: "list_all is_material_push xs" by simp_all
  from x have nd: "\<not> is_draw x" and nt: "\<not> is_transform_push x" by (cases x; simp)+
  let ?st1 = "if st = TransformPushed then SurfacePushed else st"
  have t: "track st x = Some ?st1" using x nd nt by (simp add: track_def is_surface_push_def)
  from Cons.IH[OF xs, of ?st1] obtain st' where "tracks ?st1 xs = Some st'" and "level ?st1 \<le> level st'"
    by blast
  moreover have "level st \<le> level ?st1" by (cases st) simp_all
  ultimately show ?case using t by (auto simp del: tracks.simps simp: tracks.simps(2))
qed

lemma advances_SetShaderMaterial: "advances a (SetShaderMaterial tg) a"
  unfolding advances_def
proof (intro allI impI, elim conjE)
  fix s ops s' st
  assume run: "SetShaderMaterial tg s = Inr (ops, s')" and a: "a \<le> level st"
  note c = SetShaderMaterial_cases[OF run]
  from tracks_material[of ops st] c obtain st' where "tracks st ops = Some st'" and "level st \<le> level st'"
    by blast
  with c a show "s' = s \<and> (\<exists>st'. tracks st ops = Some st' \<and> a \<le> level st')" by auto
qed

lemma advances_Draw: "advances (Suc (Suc 0)) (Draw m) 0"
  unfolding advances_def
proof (intro allI impI, elim conjE)
  fix s ops s' st
  assume run: "Draw m s = Inr (ops, s')" and a: "Suc (Suc 0) \<le> level st"
  from run have "s' = s" and "ops = [DrawMesh m]" by (simp_all add: Draw_eq)
  then show "s' = s \<and> (\<exists>st'. tracks st ops = Some st' \<and> 0 \<le> level st')"
    using a by (cases st) (simp_all add: track_def)
qed

lemmas advances_steps =
  advances_SetTransformations advances_SetShaderTexture
  advances_SetShaderColor advances_SetTextureUVScale advances_SetShaderMaterial advances_Draw

lemma advances_RenderDesktop: "advances 0 RenderDesktop 0"
  unfolding RenderDesktop_def by ((rule advances_cons, rule advances_steps)+, rule advances_nil)

lemma advances_RenderLegoMan: "advances 0 RenderLegoMan 0"
  unfolding RenderLegoMan_def by ((rule advances_cons, rule advances_steps)+, rule advances_nil)

lemma advances_RenderSodaCan: "advances 0 RenderSodaCan 0"
  unfolding RenderSodaCan_def by ((rule advances_cons, rule advances_steps)+, rule advances_nil)

lemma advances_RenderHeadPhones: "advances 0 RenderHeadPhones 0"
  unfolding RenderHeadPhones_def by ((rule advances_cons, rule advances_steps)+, rule advances_nil)

lemma advances_RenderLampBase: "advances 0 RenderLampBase 0"
  unfolding RenderLampBase_def by ((rule advances_cons, rule advances_steps)+, rule advances_nil)

lemma advances_RenderScene: "advances 0 RenderScene 0"
  unfolding RenderScene_def
  by ((rule advances_cons,
        rule advances_RenderDesktop advances_RenderLegoMan advances_RenderSodaCan
             advances_RenderHeadPhones advances_RenderLampBase)+,
      rule advances_nil)

section \<open>The render routines read only\<close>

lemma unchanged_nil: "unchanged (sequence [])"
  by (simp add: unchanged_def)

lemma unchanged_cons: "unchanged f \<Longrightarrow> unchanged (sequence fs) \<Longrightarrow> unchanged (sequence (f # fs))"
  unfolding unchanged_def
proof (intro allI impI)
  fix s ops s'
  assume f: "\<forall>s ops s'. f s = Inr (ops, s') \<longrightarrow> s' = s"
    and fs: "\<forall>s ops s'. sequence fs s = Inr (ops, s') \<longrightarrow> s' = s"
    and run: "sequence (f # fs) s = Inr (ops, s')"
  from sequence_ConsD[OF run] obtain ops1 s1 ops2 where
    "f s = Inr (ops1, s1)" and "sequence fs s1 = Inr (ops2, s')" by blast
  with f fs show "s' = s" by blast
qed

lemma unchanged_SetTransformations: "unchanged (SetTransformations sc rx ry rz pos)"
  by (auto simp: unchanged_def SetTransformations_def split: if_splits)

lemma unchanged_SetShaderColor: "unchanged (SetShaderColor r g b a)"
  by (auto simp: unchanged_def SetShaderColor_def split: if_splits)

lemma unchanged_SetShaderTexture: "unchanged (SetShaderTexture tg)"
  by (auto simp: unchanged_def SetShaderTexture_def split: if_splits sum.splits)

lemma unchanged_SetTextureUVScale: "unchanged (SetTextureUVScale u v)"
  by (auto simp: unchanged_def SetTextureUVScale_def split: if_splits)

lemma unchanged_SetShaderMaterial: "unchanged (SetShaderMaterial tg)"
  using SetShaderMaterial_cases by (auto simp: unchanged_def)

lemma unchanged_Draw: "unchanged (Draw m)"
  by (simp add: unchanged_def Draw_eq)

lemmas unchanged_steps =
  unchanged_SetTransformations unchanged_SetShaderColor unchanged_SetShaderTexture
  unchanged_SetTextureUVScale unchanged_SetShaderMaterial unchanged_Draw

lemma unchanged_RenderDesktop: "unchanged RenderDesktop"
  unfolding RenderDesktop_def by ((rule unchanged_cons, rule unchanged_steps)+, rule unchanged_nil)

lemma unchanged_RenderLegoMan: "unchanged RenderLegoMan"
  unfolding RenderLegoMan_def by ((rule unchanged_cons, rule unchanged_steps)+, rule unchanged_nil)

lemma unchanged_RenderSodaCan: "unchanged RenderSodaCan"
  unfolding RenderSodaCan_def by ((rule unchanged_cons, rule unchanged_steps)+, rule unchanged_nil)

lemma unchanged_RenderHeadPhones: "unchanged RenderHeadPhones"
  unfolding RenderHeadPhones_def by ((rule unchanged_cons, rule unchanged_steps)+, rule unchanged_nil)

lemma unchanged_RenderLampBase: "unchanged RenderLampBase"
  unfolding RenderLampBase_def by ((rule unchanged_cons, rule unchanged_steps)+, rule unchanged_nil)

lemma unchanged_RenderScene: "unchanged RenderScene"
  unfolding RenderScene_def
  by ((rule unchanged_cons,
        rule unchanged_RenderDesktop unchanged_RenderLegoMan unchanged_RenderSodaCan
             unchanged_RenderHeadPhones unchanged_RenderLampBase)+,
      rule unchanged_nil)

lemma runs_nil: "runs s (sequence [])"
  by (simp add: runs_def)

lemma runs_cons: "runs s f \<Longrightarrow> runs s (sequence fs) \<Longrightarrow> runs s (sequence (f # fs))"
  by (auto simp: runs_def)

lemma runs_SetTransformations: "runs s (SetTransformations sc rx ry rz pos)"
  by (simp add: runs_def SetTransformations_def)

lemma runs_SetShaderColor: "runs s (SetShaderColor r g b a)"
  by (simp add: runs_def SetShaderColor_def)

lemma runs_SetTextureUVScale: "runs s (SetTextureUVScale u v)"
  by (simp add: runs_def SetTextureUVScale_def)

lemma runs_Draw: "runs s (Draw m)"
  by (simp add: runs_def Draw_eq)

lemma runs_SetShaderTexture: "registry_ok s \<Longrightarrow> runs s (SetShaderTexture tg)"
  using FindTextureSlot_total[of s tg] by (auto simp: runs_def SetShaderTexture_def)

lemma runs_SetShaderMaterial:
  "m_pShaderManager s \<noteq> NULL \<Longrightarrow> find (\<lambda>m. mtag m = tg) (m_objectMaterials s) = Some m \<Longrightarrow>
   runs s (SetShaderMaterial tg)"
  by (cases "m_pShaderManager s")
     (auto simp: runs_def SetShaderMaterial_def FindMaterial_first_match)

lemma runs_material_ready:
  assumes "scene_ready s"
  shows "runs s (SetShaderMaterial ''cloth'')" "runs s (SetShaderMaterial ''plastic'')"
        "runs s (SetShaderMaterial ''metal'')" "runs s (SetShaderMaterial ''matteFinish'')"
proof -
  from assms have nn: "m_pShaderManager s \<noteq> NULL" by (simp add: scene_ready_def)
  from assms have m: "m_objectMaterials s =
      [plasticMaterial, metalMaterial, clothMaterial, glassMaterial, matteMaterial]"
    by (simp add: scene_ready_def)
  have "find (\<lambda>m. mtag m = ''cloth'') (m_objectMaterials s) = Some clothMaterial"
    by (simp add: m plasticMaterial_def metalMaterial_def clothMaterial_def)
  with nn show "runs s (SetShaderMaterial ''cloth'')" by (rule runs_SetShaderMaterial)
  have "find (\<lambda>m. mtag m = ''plastic'') (m_objectMaterials s) = Some plasticMaterial"
    by (simp add: m plasticMaterial_def)
  with nn show "runs s (SetShaderMaterial ''plastic'')" by (rule runs_SetShaderMaterial)
  have "find (\<lambda>m. mtag m = ''metal'') (m_objectMaterials s) = Some metalMaterial"
    by (simp add: m plasticMaterial_def metalMaterial_def)
  with nn show "runs s (SetShaderMaterial ''metal'')" by (rule runs_SetShaderMaterial)
  have "find (\<lambda>m. mtag m = ''matteFinish'') (m_objectMaterials s) = Some matteMaterial"
    by (simp add: m plasticMaterial_def metalMaterial_def clothMaterial_def glassMaterial_def
          matteMaterial_def)
  with nn show "runs s (SetShaderMaterial ''matteFinish'')" by (rule runs_SetShaderMaterial)
qed

lemma runs_texture_ready: "scene_ready s \<Longrightarrow> runs s (SetShaderTexture tg)"
  by (simp add: scene_ready_def runs_SetShaderTexture)

lemmas runs_steps =
  runs_SetTransformations runs_SetShaderColor runs_SetTextureUVScale runs_Draw

lemma runs_RenderDesktop: "scene_ready s \<Longrightarrow> runs s RenderDesktop"
  unfolding RenderDesktop_def
  by ((rule runs_cons, (rule runs_steps | erule runs_texture_ready | erule runs_material_ready))+,
      rule runs_nil)

lemma runs_RenderLegoMan: "scene_ready s \<Longrightarrow> runs s RenderLegoMan"
  unfolding RenderLegoMan_def
  by ((rule runs_cons, (rule runs_steps | erule runs_texture_ready | erule runs_material_ready))+,
      rule runs_nil)

lemma runs_RenderSodaCan: "scene_ready s \<Longrightarrow> runs s RenderSodaCan"
  unfolding RenderSodaCan_def
  by ((rule runs_cons, (rule runs_steps | erule runs_texture_ready | erule runs_material_ready))+,
      rule runs_nil)

lemma runs_RenderHeadPhones: "scene_ready s \<Longrightarrow> runs s RenderHeadPhones"
  unfolding RenderHeadPhones_def
  by ((rule runs_cons, (rule runs_steps | erule runs_texture_ready | erule runs_material_ready))+,
      rule runs_nil)

lemma runs_RenderLampBase: "scene_ready s \<Longrightarrow> runs s RenderLampBase"
  unfolding RenderLampBase_def
  by ((rule runs_cons, (rule runs_steps | erule runs_texture_ready | erule runs_material_ready))+,
      rule runs_nil)

lemma runs_RenderScene: "scene_ready s \<Longrightarrow> runs s RenderScene"
  unfolding RenderScene_def
  by ((rule runs_cons,
        (erule runs_RenderDesktop | erule runs_RenderLegoMan | erule runs_RenderSodaCan
          | erule runs_RenderHeadPhones | erule runs_RenderLampBase))+,
      rule runs_nil)

lemma prepared_scene_ready:
  "PrepareScene stbi_load fresh (SceneManager_ctor p) = Inr (pops, s) \<Longrightarrow> scene_ready s"
  by (simp add: scene_ready_def prepared_scene)

lemma BindGLTextures_loop_total:
  "registry_ok s \<Longrightarrow> 0 \<le> i \<Longrightarrow> \<exists>ops. BindGLTextures_loop i s = Inr (ops, s)"
proof (induction i s rule: BindGLTextures_loop.induct)
  case (1 i s)
  show ?case
  proof (cases "i < m_loadedTextures s")
    case True
    then have ib: "in_bounds s i" using 1(2,3) by (simp add: in_bounds_def registry_ok_def)
    have "0 \<le> i + 1" using 1(3) by simp
    with 1(1) True ib 1(2) obtain ops1 where "BindGLTextures_loop (i + 1) s = Inr (ops1, s)"
      by blast
    then show ?thesis using True ib by (subst BindGLTextures_loop.simps) simp
  next
    case False
    then show ?thesis by (subst BindGLTextures_loop.simps) simp
  qed
qed

lemma call_load_total:
  "m_loadedTextures s < int (length (m_textureIDs s)) \<Longrightarrow> 0 \<le> m_loadedTextures s \<Longrightarrow>
   \<exists>ops s'. call (CreateGLTexture stbi_load h f t) s = Inr (ops, s') \<and>
     length (m_textureIDs s') = length (m_textureIDs s) \<and>
     m_loadedTextures s \<le> m_loadedTextures s' \<and> m_loadedTextures s' \<le> m_loadedTextures s + 1"
  by (auto simp: call_def CreateGLTexture_def in_bounds_def Let_def split: option.splits)

lemma load_calls_total:
  "0 \<le> m_loadedTextures s \<Longrightarrow>
   m_loadedTextures s + int (length reqs) \<le> int (length (m_textureIDs s)) \<Longrightarrow>
   \<exists>ops s'. load_calls stbi_load reqs s = Inr (ops, s')"
proof (induction reqs arbitrary: s)
  case Nil
  then show ?case by (simp add: load_calls_def)
next
  case (Cons r reqs)
  obtain h f t where r: "r = (h, f, t)" by (cases r) auto
  from Cons.prems have lt: "m_loadedTextures s < int (length (m_textureIDs s))" by simp
  from call_load_total[OF lt Cons.prems(1), of stbi_load h f t] obtain ops1 s1 where
    c: "call (CreateGLTexture stbi_load h f t) s = Inr (ops1, s1)" and
    l: "length (m_textureIDs s1) = length (m_textureIDs s)" and
    lo: "m_loadedTextures s \<le> m_loadedTextures s1" and
    hi: "m_loadedTextures s1 \<le> m_loadedTextures s + 1" by blast
  have "0 \<le> m_loadedTextures s1" using lo Cons.prems(1) by simp
  moreover have "m_loadedTextures s1 + int (length reqs) \<le> int (length (m_textureIDs s1))"
    using hi l Cons.prems(2) by simp
  ultimately obtain ops2 s2 where "load_calls stbi_load reqs s1 = Inr (ops2, s2)"
    using Cons.IH by blast
  then show ?case using c by (simp add: load_calls_def r)
qed

lemma PrepareScene_total:
  assumes "p \<noteq> NULL"
  shows "\<exists>pops s. PrepareScene stbi_load fresh (SceneManager_ctor p) = Inr (pops, s)"
proof -
  let ?s0 = "SceneManager_ctor p"
  have "\<exists>ops s'. load_calls stbi_load (scene_textures fresh) ?s0 = Inr (ops, s')"
    by (rule load_calls_total) (simp_all add: SceneManager_ctor_def scene_textures_def)
  then obtain ops1 s1 where l: "load_calls stbi_load (scene_textures fresh) ?s0 = Inr (ops1, s1)"
    by blast
  from load_calls_loaded[OF l loaded_ctor(2)] have ok: "registry_ok s1"
    and sh: "m_pShaderManager s1 = p" by (simp_all add: SceneManager_ctor_def)
  from BindGLTextures_loop_total[OF ok, of 0] obtain ops2 where
    b: "BindGLTextures s1 = Inr (ops2, s1)" by (auto simp: BindGLTextures_def)
  have lt: "LoadSceneTextures stbi_load fresh ?s0 = Inr (ops1 @ ops2, s1)"
    by (simp add: LoadSceneTextures_unfold l b)
  obtain q where q: "p = Ptr q" using assms by (cases p) auto
  show ?thesis
    by (simp add: PrepareScene_def lt[unfolded q] DefineObjectMaterials_eq SetupSceneLights_def
          Load_eq sh[unfolded q] q)
qed

section \<open>What the draw-preparation check says\<close>

lemma surface_not_draw: "is_surface_push x \<Longrightarrow> \<not> is_draw x"
  by (cases x) (simp_all add: is_surface_push_def)

lemma transform_not_draw: "is_transform_push x \<Longrightarrow> \<not> is_draw x"
  by (cases x) simp_all

lemma transform_not_surface: "is_transform_push x \<Longrightarrow> \<not> is_surface_push x"
  by (cases x) (simp_all add: is_surface_push_def)

lemma transform_then_surface_Cons:
  "transform_then_surface (x # pre) =
     (transform_then_surface pre \<or>
      is_transform_push x \<and> (\<forall>y\<in>set pre. \<not> is_draw y) \<and> (\<exists>p\<in>set pre. is_surface_push p))"
proof
  assume "transform_then_surface (x # pre)"
  then obtain a t b p c where e: "x # pre = a @ t # b @ p # c" and t: "is_transform_push t"
    and p: "is_surface_push p" and nd: "\<forall>y\<in>set (b @ c). \<not> is_draw y"
    unfolding transform_then_surface_def by blast
  show "transform_then_surface pre \<or>
      is_transform_push x \<and> (\<forall>y\<in>set pre. \<not> is_draw y) \<and> (\<exists>p\<in>set pre. is_surface_push p)"
  proof (cases a)
    case Nil
    with e have "x = t" and pre: "pre = b @ p # c" by simp_all
    then show ?thesis using t p nd surface_not_draw[OF p] by auto
  next
    case (Cons a0 a')
    with e have "pre = a' @ t # b @ p # c" by simp
    then have "transform_then_surface pre" unfolding transform_then_surface_def using t p nd by blast
    then show ?thesis ..
  qed
next
  assume "transform_then_surface pre \<or>
      is_transform_push x \<and> (\<forall>y\<in>set pre. \<not> is_draw y) \<and> (\<exists>p\<in>set pre. is_surface_push p)"
  then show "transform_then_surface (x # pre)"
  proof
    assume "transform_then_surface pre"
    then obtain a t b p c where "pre = a @ t # b @ p # c" and "is_transform_push t"
      and "is_surface_push p" and "\<forall>y\<in>set (b @ c). \<not> is_draw y"
      unfolding transform_then_surface_def by blast
    then have "x # pre = (x # a) @ t # b @ p # c \<and> is_transform_push t
      \<and> is_surface_push p \<and> (\<forall>y\<in>set (b @ c). \<not> is_draw y)" by simp
    then show ?thesis unfolding transform_then_surface_def by blast
  next
    assume r: "is_transform_push x \<and> (\<forall>y\<in>set pre. \<not> is_draw y) \<and> (\<exists>p\<in>set pre. is_surface_push p)"
    then obtain p where "p \<in> set pre" and p: "is_surface_push p" by blast
    then obtain b c where pre: "pre = b @ p # c" by (meson split_list)
    with r have "x # pre = [] @ x # b @ p # c \<and> is_transform_push x
      \<and> is_surface_push p \<and> (\<forall>y\<in>set (b @ c). \<not> is_draw y)" using p by auto
    then show ?thesis unfolding transform_then_surface_def by blast
  qed
qed

lemma transform_then_surface_Nil: "\<not> transform_then_surface []"
  by (simp add: transform_then_surface_def)

lemma ready_for_step:
  "\<not> is_draw x \<Longrightarrow> track st x = Some st1 \<Longrightarrow> ready_for st (x # pre) = ready_for st1 pre"
  using transform_not_surface[of x]
  by (cases st)
     (auto simp: ready_for_def transform_then_surface_Cons track_def split: if_splits)

lemma ready_for_draw:
  "is_draw x \<Longrightarrow> ready_for st (x # pre) = ready_for NoTransform pre"
  using transform_not_draw[of x]
  by (auto simp: ready_for_def transform_then_surface_Cons)

lemma tracks_iff:
  "(tracks st ops \<noteq> None) =
     (\<forall>pre m post. ops = pre @ DrawMesh m # post \<longrightarrow> ready_for st pre)"
proof (induction ops arbitrary: st)
  case Nil
  then show ?case by simp
next
  case (Cons x xs)
  have split: "\<And>pre m post. (x # xs = pre @ DrawMesh m # post) =
      (pre = [] \<and> x = DrawMesh m \<and> post = xs \<or>
       (\<exists>pre'. pre = x # pre' \<and> xs = pre' @ DrawMesh m # post))"
    by (auto simp: Cons_eq_append_conv)
  show ?case
  proof (cases "is_draw x")
    case True
    then obtain m0 where x: "x = DrawMesh m0" by (cases x) simp_all
    have l: "(tracks st (x # xs) \<noteq> None) = (st = SurfacePushed \<and> tracks NoTransform xs \<noteq> None)"
      by (simp add: x track_def)
    have r0: "ready_for st [] = (st = SurfacePushed)"
      by (simp add: ready_for_def transform_then_surface_Nil)
    have "(\<forall>pre m post. x # xs = pre @ DrawMesh m # post \<longrightarrow> ready_for st pre) =
          (ready_for st [] \<and> (\<forall>pre' m post. xs = pre' @ DrawMesh m # post \<longrightarrow> ready_for st (x # pre')))"
      unfolding split using x by blast
    also have "\<dots> = (st = SurfacePushed \<and>
          (\<forall>pre' m post. xs = pre' @ DrawMesh m # post \<longrightarrow> ready_for NoTransform pre'))"
      by (simp add: r0 ready_for_draw[OF True])
    finally show ?thesis using l Cons.IH[of NoTransform] by simp
  next
    case False
    then have "track st x \<noteq> None" by (simp add: track_def)
    then obtain st1 where t: "track st x = Some st1" by blast
    have l: "(tracks st (x # xs) \<noteq> None) = (tracks st1 xs \<noteq> None)" by (simp add: t)
    have nx: "\<And>m. x \<noteq> DrawMesh m" using False by auto
    have "(\<forall>pre m post. x # xs = pre @ DrawMesh m # post \<longrightarrow> ready_for st pre) =
          (\<forall>pre' m post. xs = pre' @ DrawMesh m # post \<longrightarrow> ready_for st (x # pre'))"
      unfolding split using nx by blast
    also have "\<dots> = (\<forall>pre' m post. xs = pre' @ DrawMesh m # post \<longrightarrow> ready_for st1 pre')"
      by (simp add: ready_for_step[OF False t])
    finally show ?thesis using l Cons.IH[of st1] by simp
  qed
qed

lemma draws_prepared_iff:
  "draws_prepared ops =
     (\<forall>pre m post. ops = pre @ DrawMesh m # post \<longrightarrow> transform_then_surface pre)"
  unfolding draws_prepared_def tracks_iff by (simp add: ready_for_def)

section \<open>The claims\<close>

text \<open>
  Claim C1. \<^verbatim>\<open>FindMaterial\<close> is to report not-found for a tag no defined material
  carries, and to report found, with the stored values of the first match copied out,
  otherwise. The second half holds (\<open>FindMaterial_first_match\<close>). The first fails as soon
  as one material is defined: the function ends in \<^verbatim>\<open>return(true)\<close>, not in its
  \<^verbatim>\<open>bFound\<close>. With the five materials of \<^verbatim>\<open>DefineObjectMaterials\<close> and the undefined tag
  \<^verbatim>\<open>"wood"\<close> it returns \<^verbatim>\<open>true\<close> and leaves the caller's object unassigned.
\<close>

theorem FindMaterial_reports_found_for_undefined_tag:
  "DefineObjectMaterials (SceneManager_ctor (Ptr 0)) =
     Inr ([], (SceneManager_ctor (Ptr 0))
                \<lparr> m_objectMaterials :=
                    [plasticMaterial, metalMaterial, clothMaterial, glassMaterial, matteMaterial] \<rparr>) \<and>
   FindMaterial ''wood'' None
     ((SceneManager_ctor (Ptr 0))
        \<lparr> m_objectMaterials :=
            [plasticMaterial, metalMaterial, clothMaterial, glassMaterial, matteMaterial] \<rparr>)
     = (True, None)"
proof
  show "DefineObjectMaterials (SceneManager_ctor (Ptr 0)) =
     Inr ([], (SceneManager_ctor (Ptr 0))
                \<lparr> m_objectMaterials :=
                    [plasticMaterial, metalMaterial, clothMaterial, glassMaterial, matteMaterial] \<rparr>)"
    by (simp add: DefineObjectMaterials_eq SceneManager_ctor_def)
  show "FindMaterial ''wood'' None
     ((SceneManager_ctor (Ptr 0))
        \<lparr> m_objectMaterials :=
            [plasticMaterial, metalMaterial, clothMaterial, glassMaterial, matteMaterial] \<rparr>)
     = (True, None)"
    by (rule FindMaterial_miss)
       (simp_all add: plasticMaterial_def metalMaterial_def clothMaterial_def glassMaterial_def
          matteMaterial_def)
qed

text \<open>
  Claim C2. Texture slots follow load order. After any sequence of load calls on a freshly
  constructed scene manager, where the tags of the loads that succeeded are pairwise
  distinct, \<^verbatim>\<open>FindTextureSlot\<close> of a successfully loaded tag returns the number of
  successful loads before it (0 for the first, 1 for the second, and so on) and
  \<^verbatim>\<open>FindTextureID\<close> returns the texture name stored by that load, as the \<^verbatim>\<open>int\<close> the
  \<^verbatim>\<open>GLuint\<close> converts to.
\<close>

theorem texture_slots_follow_load_order:
  assumes "load_calls stbi_load reqs (SceneManager_ctor p) = Inr (ops, s)"
      and "distinct (map (\<lambda>r. snd (snd r)) (filter (succeeds stbi_load) reqs))"
      and "i < length reqs"
      and "succeeds stbi_load (reqs ! i)"
  shows "FindTextureSlot (snd (snd (reqs ! i))) s
           = Inr (int (length (filter (succeeds stbi_load) (take i reqs)))) \<and>
         FindTextureID (snd (snd (reqs ! i))) s = Inr (sint (fst (reqs ! i)))"
proof -
  let ?ok = "filter (succeeds stbi_load) reqs"
  let ?k = "length (filter (succeeds stbi_load) (take i reqs))"
  from load_calls_loaded[OF assms(1) loaded_ctor(2)]
  have ok: "registry_ok s" and l: "loaded s = map entry_of ?ok" by (simp_all add: loaded_ctor)
  from filter_nth_count[of i reqs "succeeds stbi_load"] assms(3,4)
  have k: "?k < length ?ok" and nth: "?ok ! ?k = reqs ! i" by simp_all
  have tags: "map tag (loaded s) = map (\<lambda>r. snd (snd r)) ?ok"
    by (simp add: l entry_of_def comp_def)
  have d: "distinct (map tag (loaded s))" using assms(2) tags by simp
  have kl: "?k < length (loaded s)" using k l by simp
  have e: "loaded s ! ?k = entry_of (reqs ! i)" using k nth by (simp add: l)
  from find_hit[OF ok kl d] show ?thesis by (simp add: e entry_of_def)
qed

theorem texture_slots_follow_load_order_witness:
  "\<exists>ops s. load_calls (\<lambda>f. Some \<lparr> width = 8, height = 8, colorChannels = 3 \<rparr>)
             [(1, ''marble.jpg'', ''marble''), (2, ''glass.jpg'', ''glass''), (3, ''can.jpg'', ''can'')]
             (SceneManager_ctor (Ptr 0)) = Inr (ops, s) \<and>
           FindTextureSlot ''can'' s = Inr 2 \<and> FindTextureID ''can'' s = Inr 3"
proof -
  let ?dec = "\<lambda>f::string. Some \<lparr> width = 8, height = 8, colorChannels = 3 \<rparr>"
  let ?reqs = "[(1, ''marble.jpg'', ''marble''), (2, ''glass.jpg'', ''glass''), (3, ''can.jpg'', ''can'')]
                 :: (32 word \<times> string \<times> string) list"
  have "\<exists>ops s. load_calls ?dec ?reqs (SceneManager_ctor (Ptr 0)) = Inr (ops, s)"
    by (simp add: load_calls_def call_def CreateGLTexture_def SceneManager_ctor_def in_bounds_def Let_def)
  then obtain ops s where run: "load_calls ?dec ?reqs (SceneManager_ctor (Ptr 0)) = Inr (ops, s)" by blast
  have d: "distinct (map (\<lambda>r. snd (snd r)) (filter (succeeds ?dec) ?reqs))"
    by (simp add: succeeds_def)
  have i: "2 < length ?reqs" by simp
  have ok: "succeeds ?dec (?reqs ! 2)" by (simp add: succeeds_def)
  from texture_slots_follow_load_order [OF run d i ok]
  have "FindTextureSlot ''can'' s = Inr 2 \<and> FindTextureID ''can'' s = Inr 3"
    by (simp add: succeeds_def)
  with run show ?thesis by blast
qed




text \<open>
  Claim C5. A load fails without touching the registry when the file cannot be decoded and
  when the decoded image has a channel count other than 3 or 4: \<^verbatim>\<open>CreateGLTexture\<close>
  returns \<^verbatim>\<open>false\<close> and the scene manager, with its count of loaded textures and every
  entry of its texture array, is the one it was called on.
\<close>

theorem CreateGLTexture_failure_leaves_registry:
  "stbi_load filename = None \<or>
     (\<exists>img. stbi_load filename = Some img \<and> colorChannels img \<noteq> 3 \<and> colorChannels img \<noteq> 4) \<Longrightarrow>
   \<exists>ops. CreateGLTexture stbi_load fresh filename tg s = Inr (False, ops, s)"
  by (auto simp: CreateGLTexture_def Let_def)

theorem CreateGLTexture_failure_witness:
  "(\<exists>ops. CreateGLTexture (\<lambda>f. None) 7 ''missing.jpg'' ''marble'' (SceneManager_ctor (Ptr 0))
      = Inr (False, ops, SceneManager_ctor (Ptr 0))) \<and>
   (\<exists>ops. CreateGLTexture (\<lambda>f. Some \<lparr> width = 4, height = 4, colorChannels = 1 \<rparr>) 7
            ''gray.png'' ''gray'' (SceneManager_ctor (Ptr 0))
      = Inr (False, ops, SceneManager_ctor (Ptr 0)))"
  using CreateGLTexture_failure_leaves_registry
          [of "\<lambda>f. None" "''missing.jpg''" 7 "''marble''" "SceneManager_ctor (Ptr 0)"]
        CreateGLTexture_failure_leaves_registry
          [of "\<lambda>f. Some \<lparr> width = 4, height = 4, colorChannels = 1 \<rparr>" "''gray.png''" 7 "''gray''"
              "SceneManager_ctor (Ptr 0)"]
  by simp

text \<open>
  Claim C6. \<^verbatim>\<open>DestroyGLTextures\<close> is to delete, for each registered entry, the texture
  name stored in it. It never deletes (\<open>DestroyGLTextures_never_deletes\<close>): the loop
  body calls \<^verbatim>\<open>glGenTextures\<close>. After one load that stored the name 1 under
  \<^verbatim>\<open>"marble"\<close>, the teardown makes one call, \<^verbatim>\<open>glGenTextures\<close>, and overwrites the stored
  name with the new one; texture 1 is never released.
\<close>

theorem DestroyGLTextures_generates_instead_of_deleting:
  "\<exists>ops s. CreateGLTexture (\<lambda>f. Some \<lparr> width = 8, height = 8, colorChannels = 3 \<rparr>) 1
              ''../../Utilities/textures/marble.jpg'' ''marble'' (SceneManager_ctor (Ptr 0))
              = Inr (True, ops, s) \<and>
           m_loadedTextures s = 1 \<and> m_textureIDs s ! 0 = \<lparr> tag = ''marble'', ID = 1 \<rparr> \<and>
           DestroyGLTextures (\<lambda>i. 2) s =
             Inr ([glGenTextures 2],
                  s\<lparr> m_textureIDs := (m_textureIDs s)[0 := \<lparr> tag = ''marble'', ID = 2 \<rparr>] \<rparr>)"
  by (simp add: CreateGLTexture_def SceneManager_ctor_def in_bounds_def Let_def DestroyGLTextures_def
        DestroyGLTextures_loop.simps)

text \<open>
  Claim C7, as stated: in the trace of any one \<^verbatim>\<open>RenderScene\<close>, every mesh draw is
  preceded, since the draw before it, by a transform push and then a material, texture or
  flat-colour push. A scene manager constructed with a null shader manager and never
  prepared renders to the end: the four guarded setters push nothing,
  \<^verbatim>\<open>SetShaderMaterial\<close> finds no material defined, and the twenty draws are made all the same.
\<close>

theorem unprepared_draws_counterexample:
  "RenderScene (SceneManager_ctor NULL) =
     Inr ([DrawMesh PlaneMesh,
      DrawMesh BoxMesh,
      DrawMesh BoxMesh,
      DrawMesh BoxMesh,
      DrawMesh CylinderMesh,
      DrawMesh CylinderMesh,
      DrawMesh CylinderMesh,
      DrawMesh SphereMesh,
      DrawMesh CylinderMesh,
      DrawMesh CylinderMesh,
      DrawMesh SphereMesh,
      DrawMesh SphereMesh,
      DrawMesh CylinderMesh,
      DrawMesh TaperedCylinderMesh,
      DrawMesh HalfTorusMesh,
      DrawMesh CylinderMesh,
      DrawMesh CylinderMesh,
      DrawMesh BoxMesh,
      DrawMesh BoxMesh,
      DrawMesh PrismMesh],
          SceneManager_ctor NULL) \<and>
   \<not> draws_prepared
     [DrawMesh PlaneMesh,
      DrawMesh BoxMesh,
      DrawMesh BoxMesh,
      DrawMesh BoxMesh,
      DrawMesh CylinderMesh,
      DrawMesh CylinderMesh,
      DrawMesh CylinderMesh,
      DrawMesh SphereMesh,
      DrawMesh CylinderMesh,
      DrawMesh CylinderMesh,
      DrawMesh SphereMesh,
      DrawMesh SphereMesh,
      DrawMesh CylinderMesh,
      DrawMesh TaperedCylinderMesh,
      DrawMesh HalfTorusMesh,
      DrawMesh CylinderMesh,
      DrawMesh CylinderMesh,
      DrawMesh BoxMesh,
      DrawMesh BoxMesh,
      DrawMesh PrismMesh]"
  by (simp add: RenderScene_def RenderDesktop_def RenderLegoMan_def RenderSodaCan_def
        RenderHeadPhones_def RenderLampBase_def SetTransformations_def SetShaderColor_def
        SetShaderTexture_def SetTextureUVScale_def SetShaderMaterial_def Draw_def
        SceneManager_ctor_def draws_prepared_def track_def)

text \<open>
  Claim C7, amended. In the trace of one \<^verbatim>\<open>RenderScene\<close> on a scene manager whose shader
  manager is not null, every mesh draw is preceded, since the draw before it (or since the
  start), by a transform push and, after that push, by at least one material, texture or
  flat-colour push; and every prepared scene has a shader manager and renders to the end.
  \<open>draws_prepared_iff\<close> spells out what \<open>draws_prepared\<close> says.
\<close>

theorem every_draw_is_prepared:
  "(m_pShaderManager s \<noteq> NULL \<and> RenderScene s = Inr (ops, s') \<longrightarrow> draws_prepared ops) \<and>
   (PrepareScene stbi_load fresh (SceneManager_ctor p) = Inr (pops, sp) \<longrightarrow>
      (\<exists>rops. RenderScene sp = Inr (rops, sp) \<and> draws_prepared rops))"
proof (intro conjI impI)
  assume "m_pShaderManager s \<noteq> NULL \<and> RenderScene s = Inr (ops, s')"
  with advances_RenderScene have "\<exists>st'. tracks NoTransform ops = Some st'"
    unfolding advances_def by (metis le0)
  then show "draws_prepared ops" by (auto simp: draws_prepared_def)
next
  assume prep: "PrepareScene stbi_load fresh (SceneManager_ctor p) = Inr (pops, sp)"
  then have ready: "scene_ready sp" by (rule prepared_scene_ready)
  from runs_RenderScene[OF ready] obtain rops where r: "RenderScene sp = Inr (rops, sp)"
    by (auto simp: runs_def)
  from ready have "m_pShaderManager sp \<noteq> NULL" by (simp add: scene_ready_def)
  with advances_RenderScene r have "\<exists>st'. tracks NoTransform rops = Some st'"
    unfolding advances_def by (metis le0)
  then have "draws_prepared rops" by (auto simp: draws_prepared_def)
  with r show "\<exists>rops. RenderScene sp = Inr (rops, sp) \<and> draws_prepared rops" by blast
qed

theorem every_draw_is_prepared_witness:
  "\<exists>pops sp rops.
     PrepareScene (\<lambda>f. Some \<lparr> width = 8, height = 8, colorChannels = 3 \<rparr>) (\<lambda>n. of_nat (Suc n))
       (SceneManager_ctor (Ptr 0)) = Inr (pops, sp) \<and>
     RenderScene sp = Inr (rops, sp) \<and> draws_prepared rops"
proof -
  let ?dec = "\<lambda>f::string. Some \<lparr> width = 8, height = 8, colorChannels = 3 \<rparr>"
  let ?fresh = "\<lambda>n::nat. (of_nat (Suc n) :: 32 word)"
  from PrepareScene_total[of "Ptr 0" ?dec ?fresh] obtain pops sp where
    prep: "PrepareScene ?dec ?fresh (SceneManager_ctor (Ptr 0)) = Inr (pops, sp)" by auto
  from every_draw_is_prepared [of sp "[]" sp ?dec ?fresh "Ptr 0" pops sp] prep
  obtain rops where r: "RenderScene sp = Inr (rops, sp)" by blast
  have nn: "m_pShaderManager sp \<noteq> NULL" using prepared_scene(4)[OF prep] .
  from every_draw_is_prepared [of sp rops sp ?dec ?fresh "Ptr 0" pops sp] nn r
  have "draws_prepared rops" by blast
  with prep r show ?thesis by blast
qed

text \<open>
  Claim C8. \<^verbatim>\<open>RenderScene\<close> leaves the scene manager as it found it, so a second
  invocation starts from the same registries and count and makes the same calls; on a
  prepared scene both invocations run to the end and the trace of the two is the trace of
  one, twice.
\<close>

theorem rendering_twice_is_identical:
  "(RenderScene s = Inr (ops, s') \<longrightarrow> s' = s \<and> RenderScene s' = Inr (ops, s')) \<and>
   (PrepareScene stbi_load fresh (SceneManager_ctor p) = Inr (pops, sp) \<longrightarrow>
      (\<exists>rops. RenderScene sp = Inr (rops, sp) \<and>
              sequence [RenderScene, RenderScene] sp = Inr (rops @ rops, sp)))"
proof (intro conjI impI)
  assume r: "RenderScene s = Inr (ops, s')"
  with unchanged_RenderScene show "s' = s" unfolding unchanged_def by blast
  with r show "RenderScene s' = Inr (ops, s')" by simp
next
  assume prep: "PrepareScene stbi_load fresh (SceneManager_ctor p) = Inr (pops, sp)"
  then have ready: "scene_ready sp" by (rule prepared_scene_ready)
  from runs_RenderScene[OF ready] obtain rops where r: "RenderScene sp = Inr (rops, sp)"
    by (auto simp: runs_def)
  then have "sequence [RenderScene, RenderScene] sp = Inr (rops @ rops, sp)" by simp
  with r show "\<exists>rops. RenderScene sp = Inr (rops, sp) \<and>
              sequence [RenderScene, RenderScene] sp = Inr (rops @ rops, sp)" by blast
qed

theorem rendering_twice_is_identical_witness:
  "\<exists>pops sp rops.
     PrepareScene (\<lambda>f. Some \<lparr> width = 8, height = 8, colorChannels = 3 \<rparr>) (\<lambda>n. of_nat (Suc n))
       (SceneManager_ctor (Ptr 0)) = Inr (pops, sp) \<and>
     RenderScene sp = Inr (rops, sp) \<and>
     sequence [RenderScene, RenderScene] sp = Inr (rops @ rops, sp)"
proof -
  let ?dec = "\<lambda>f::string. Some \<lparr> width = 8, height = 8, colorChannels = 3 \<rparr>"
  let ?fresh = "\<lambda>n::nat. (of_nat (Suc n) :: 32 word)"
  from PrepareScene_total[of "Ptr 0" ?dec ?fresh] obtain pops sp where
    prep: "PrepareScene ?dec ?fresh (SceneManager_ctor (Ptr 0)) = Inr (pops, sp)" by auto
  from rendering_twice_is_identical [of sp "[]" sp ?dec ?fresh "Ptr 0" pops sp] prep
  obtain rops where r: "RenderScene sp = Inr (rops, sp)"
    and rr: "sequence [RenderScene, RenderScene] sp = Inr (rops @ rops, sp)" by blast
  from rendering_twice_is_identical [of sp rops sp ?dec ?fresh "Ptr 0" pops sp] r
  have "RenderScene sp = Inr (rops, sp)" by blast
  with prep rr show ?thesis by blast
qed

text \<open>
  Claim C10. With a null shader manager, \<^verbatim>\<open>SetTransformations\<close>, \<^verbatim>\<open>SetShaderColor\<close>,
  \<^verbatim>\<open>SetShaderTexture\<close> and \<^verbatim>\<open>SetTextureUVScale\<close> each return normally, write no shader
  parameter and leave the scene manager as it was.
\<close>

theorem null_shader_manager_guard:
  "m_pShaderManager s = NULL \<Longrightarrow>
     SetTransformations scaleXYZ rx ry rz positionXYZ s = Inr ([], s) \<and>
     SetShaderColor r g b a s = Inr ([], s) \<and>
     SetShaderTexture textureTag s = Inr ([], s) \<and>
     SetTextureUVScale u v s = Inr ([], s)"
  by (simp add: SetTransformations_def SetShaderColor_def SetShaderTexture_def SetTextureUVScale_def)

theorem null_shader_manager_guard_witness:
  "m_pShaderManager (SceneManager_ctor NULL) = NULL \<and>
   SetTransformations (vec3 1 1 1) 0 0 0 (vec3 0 0 0) (SceneManager_ctor NULL)
     = Inr ([], SceneManager_ctor NULL) \<and>
   SetShaderColor 1 1 0 1 (SceneManager_ctor NULL) = Inr ([], SceneManager_ctor NULL) \<and>
   SetShaderTexture ''marble'' (SceneManager_ctor NULL) = Inr ([], SceneManager_ctor NULL) \<and>
   SetTextureUVScale 1 1 (SceneManager_ctor NULL) = Inr ([], SceneManager_ctor NULL)"
proof -
  have h: "m_pShaderManager (SceneManager_ctor NULL) = NULL" by (simp add: SceneManager_ctor_def)
  show ?thesis
    using h null_shader_manager_guard [OF h, of "vec3 1 1 1" 0 0 0 "vec3 0 0 0" 1 1 0 1 "''marble''" 1 1]
    by simp
qed

end
